theory Spec2Isabelle
  imports Complex_Main
begin

section \<open>Pixshop: data model\<close>

text \<open>
  The editor keeps its whole state in the hooks of the \<open>App\<close> component
  (\<open>useState\<close>). The model is a record with one field per hook that the
  handlers read or write, and every handler is a function from the state before
  the event to the state after it.

  JavaScript numbers are doubles. Every finite double is a real number, and the
  code below only compares numbers with the constants 0 and 1 or tests them for
  truthiness, so a finite number is modelled by its real value and the three
  non-finite doubles are constructors of their own.
\<close>

datatype number = Num real | NaN | PosInf | NegInf

text \<open>\<open>a >= b\<close> and \<open>a <= b\<close> on numbers: false as soon as one side is NaN.\<close>

fun num_le :: "number \<Rightarrow> number \<Rightarrow> bool" where
  "num_le NaN _ = False"
| "num_le _ NaN = False"
| "num_le (Num a) (Num b) = (a \<le> b)"
| "num_le NegInf _ = True"
| "num_le _ PosInf = True"
| "num_le PosInf _ = False"
| "num_le _ NegInf = False"

definition num_ge :: "number \<Rightarrow> number \<Rightarrow> bool" where
  "num_ge a b = num_le b a"

text \<open>Truthiness of a number: everything but 0 and NaN.\<close>

fun num_truthy :: "number \<Rightarrow> bool" where
  "num_truthy (Num a) = (a \<noteq> 0)"
| "num_truthy NaN = False"
| "num_truthy _ = True"

text \<open>Truthiness of a string: everything but the empty string.\<close>

definition str_truthy :: "string \<Rightarrow> bool" where
  "str_truthy s = (s \<noteq> [])"

text \<open>A browser \<open>File\<close>: its name, its MIME type and its bytes.\<close>

record File =
  fname :: string
  ftype :: string
  fbytes :: string

text \<open>
  A value produced by \<open>JSON.parse\<close>. An object is the list of its own
  properties, keys distinct. The faces that \<open>detectFaces\<close>
  returns and the \<open>faces\<close> hook holds are such values: the interface
  \<open>BoundingBox\<close> is erased at run time.
\<close>

datatype json =
    JNull
  | JBool bool
  | JNumber number
  | JString string
  | JArray "json list"
  | JObject "(string \<times> json) list"

record point =
  px :: number
  py :: number

record PixelCrop =
  cropX :: number
  cropY :: number
  cropWidth :: number
  cropHeight :: number

datatype Tab = retouch | adjust | filters | cropTab | extract_text | resize
  | face_detection | background

record toast_msg =
  message :: string
  key :: nat

text \<open>The \<open>img\<close> element behind \<open>imgRef\<close>, as far as the handlers look at it.\<close>

record image_element =
  naturalWidth :: number
  naturalHeight :: number
  elWidth :: number
  elHeight :: number

record app =
  history :: "File list"
  historyIndex :: int
  prompt :: string
  isLoading :: bool
  loadingMessage :: string
  error :: "string option"
  editHotspot :: "point option"
  displayHotspot :: "point option"
  activeTab :: Tab
  toast :: "toast_msg option"
  extractedText :: "string option"
  faces :: "json list"
  crop :: "PixelCrop option"
  completedCrop :: "PixelCrop option"
  imgRef :: "image_element option"

text \<open>The state of a freshly mounted \<open>App\<close>: the initial values of the hooks.\<close>

definition initial_app :: app where
  "initial_app = \<lparr> history = [], historyIndex = -1, prompt = [], isLoading = False,
     loadingMessage = ''AI is thinking...'', error = None, editHotspot = None,
     displayHotspot = None, activeTab = retouch, toast = None, extractedText = Some [],
     faces = [], crop = None, completedCrop = None, imgRef = None \<rparr>"

section \<open>History manager\<close>

text \<open>
  \<open>Array.prototype.slice(0, end)\<close> for an integer \<open>end\<close>: a negative end counts
  from the back, and both bounds are clamped to the array.
\<close>

definition slice0 :: "'a list \<Rightarrow> int \<Rightarrow> 'a list" where
  "slice0 xs e =
     (let len = int (length xs);
          k = (if e < 0 then max (len + e) 0 else min e len)
      in take (nat k) xs)"

text \<open>\<open>xs[i]\<close> for an integer \<open>i\<close>: \<open>undefined\<close> outside the array.\<close>

definition index :: "'a list \<Rightarrow> int \<Rightarrow> 'a option" where
  "index xs i = (if 0 \<le> i \<and> i < int (length xs) then Some (xs ! nat i) else None)"

text \<open>\<open>history[historyIndex] ?? null\<close> and \<open>history[0] ?? null\<close>.\<close>

definition currentImage :: "app \<Rightarrow> File option" where
  "currentImage s = index (history s) (historyIndex s)"

definition originalImage :: "app \<Rightarrow> File option" where
  "originalImage s = index (history s) 0"

definition canUndo :: "app \<Rightarrow> bool" where
  "canUndo s = (historyIndex s > 0)"

definition canRedo :: "app \<Rightarrow> bool" where
  "canRedo s = (historyIndex s < int (length (history s)) - 1)"

text \<open>\<open>showToast\<close>: the key is \<open>Date.now()\<close>, passed in as \<open>now\<close>.\<close>

definition showToast :: "nat \<Rightarrow> string \<Rightarrow> app \<Rightarrow> app" where
  "showToast now msg s = s\<lparr>toast := Some \<lparr>message = msg, key = now\<rparr>\<rparr>"

definition addImageToHistory :: "File \<Rightarrow> app \<Rightarrow> app" where
  "addImageToHistory newImageFile s =
     (let newHistory = slice0 (history s) (historyIndex s + 1) @ [newImageFile]
      in s\<lparr>history := newHistory,
            historyIndex := int (length newHistory) - 1,
            crop := None,
            completedCrop := None,
            extractedText := Some [],
            faces := []\<rparr>)"

definition handleImageUpload :: "File \<Rightarrow> app \<Rightarrow> app" where
  "handleImageUpload f s =
     s\<lparr>error := None,
       history := [f],
       historyIndex := 0,
       editHotspot := None,
       displayHotspot := None,
       activeTab := retouch,
       crop := None,
       completedCrop := None,
       extractedText := Some [],
       faces := []\<rparr>"

definition handleUndo :: "nat \<Rightarrow> app \<Rightarrow> app" where
  "handleUndo now s =
     (if canUndo s
      then (showToast now ''Undo successful'' (s\<lparr>historyIndex := historyIndex s - 1\<rparr>))
             \<lparr>extractedText := Some [], faces := []\<rparr>
      else s)"

definition handleRedo :: "nat \<Rightarrow> app \<Rightarrow> app" where
  "handleRedo now s =
     (if canRedo s
      then (showToast now ''Redo successful'' (s\<lparr>historyIndex := historyIndex s + 1\<rparr>))
             \<lparr>extractedText := Some [], faces := []\<rparr>
      else s)"

text \<open>The three operations of the history manager, and a run of them.\<close>

datatype history_op = Append File | Undo | Redo

fun history_step :: "nat \<Rightarrow> app \<Rightarrow> history_op \<Rightarrow> app" where
  "history_step now s (Append f) = addImageToHistory f s"
| "history_step now s Undo = handleUndo now s"
| "history_step now s Redo = handleRedo now s"

definition run_history :: "nat \<Rightarrow> app \<Rightarrow> history_op list \<Rightarrow> app" where
  "run_history now s ops = foldl (history_step now) s ops"

text \<open>The position is a valid index of a non-empty sequence.\<close>

definition history_ok :: "app \<Rightarrow> bool" where
  "history_ok s =
     (1 \<le> length (history s) \<and> 0 \<le> historyIndex s
        \<and> historyIndex s \<le> int (length (history s)) - 1)"

section \<open>Strings\<close>

text \<open>
  A string is a list of characters; the model keeps to code units below 256.
  \<open>String.prototype.trim\<close> removes white space and line terminators at both
  ends; below 256 these are tab, line feed, vertical tab, form feed, carriage
  return, space and the no-break space.
\<close>

definition is_space :: "char \<Rightarrow> bool" where
  "is_space c = (c \<in> {CHR 0x09, CHR 0x0A, CHR 0x0B, CHR 0x0C, CHR 0x0D, CHR 0x20, CHR 0xA0})"

definition trim :: "string \<Rightarrow> string" where
  "trim s = rev (dropWhile is_space (rev (dropWhile is_space s)))"

text \<open>\<open>s.split(',')\<close>: always at least one piece.\<close>

fun split_on :: "char \<Rightarrow> string \<Rightarrow> string list" where
  "split_on d [] = [[]]"
| "split_on d (c # cs) =
     (if c = d then [] # split_on d cs
      else (case split_on d cs of
              p # ps \<Rightarrow> (c # p) # ps
            | [] \<Rightarrow> [[c]]))"

text \<open>
  \<open>s.match(/:(.*?);/)\<close>, reduced to its first capture group: the text between
  the leftmost colon that has a semicolon after it on the same line and the
  first semicolon that follows (the dot matches no line terminator).
\<close>

definition is_line_terminator :: "char \<Rightarrow> bool" where
  "is_line_terminator c = (c = CHR 0x0A \<or> c = CHR 0x0D)"

fun upto_semicolon :: "string \<Rightarrow> string option" where
  "upto_semicolon [] = None"
| "upto_semicolon (c # cs) =
     (if c = CHR '';'' then Some []
      else if is_line_terminator c then None
      else map_option ((#) c) (upto_semicolon cs))"

fun mimeMatch :: "string \<Rightarrow> string option" where
  "mimeMatch [] = None"
| "mimeMatch (c # cs) =
     (if c = CHR '':'' then
        (case upto_semicolon cs of Some m \<Rightarrow> Some m | None \<Rightarrow> mimeMatch cs)
      else mimeMatch cs)"

text \<open>A template literal prints an absent value as \<open>undefined\<close>.\<close>

definition template :: "string option \<Rightarrow> string" where
  "template v = (case v of None \<Rightarrow> ''undefined'' | Some s \<Rightarrow> s)"

text \<open>Decimal digits of a natural number, as a template literal prints it.\<close>

definition digit :: "nat \<Rightarrow> char" where
  "digit d = ''0123456789'' ! d"

function show_nat :: "nat \<Rightarrow> string" where
  "show_nat n =
     (if n < 10 then [digit n]
      else show_nat (n div 10) @ [digit (n mod 10)])"
  by pat_completeness auto
termination
  by (relation "measure id") auto

declare show_nat.simps [simp del]

section \<open>Errors\<close>

text \<open>
  A thrown value is either an \<open>Error\<close> object with its message or something
  else; the handlers tell the two apart with \<open>instanceof Error\<close>.
\<close>

datatype js_error = Error string | NonError

definition errorMessage :: "js_error \<Rightarrow> string" where
  "errorMessage err = (case err of Error m \<Rightarrow> m | NonError \<Rightarrow> ''An unknown error occurred.'')"

section \<open>Response validator\<close>

text \<open>
  The response of the service, as far as the code reads it. Every field the
  code reaches through \<open>?.\<close> is optional. \<open>responseText\<close> is the \<open>text\<close>
  accessor of the response.
\<close>

record Blob =
  mimeType :: "string option"
  blobData :: "string option"

record Part =
  inlineData :: "Blob option"
  partText :: "string option"

record Content =
  parts :: "Part list option"

record Candidate =
  content :: "Content option"
  finishReason :: "string option"

record PromptFeedback =
  blockReason :: "string option"
  blockReasonMessage :: "string option"

record GenerateContentResponse =
  promptFeedback :: "PromptFeedback option"
  candidates :: "Candidate list option"
  responseText :: "string option"

text \<open>\<open>response.candidates?.[0]\<close>\<close>

definition firstCandidate :: "GenerateContentResponse \<Rightarrow> Candidate option" where
  "firstCandidate response =
     (case candidates response of None \<Rightarrow> None | Some cs \<Rightarrow> index cs 0)"

text \<open>\<open>response.candidates?.[0]?.content?.parts?.find(part => part.inlineData)\<close>\<close>

definition imagePartFromResponse :: "GenerateContentResponse \<Rightarrow> Part option" where
  "imagePartFromResponse response =
     (case firstCandidate response of
        None \<Rightarrow> None
      | Some c \<Rightarrow>
          (case content c of
             None \<Rightarrow> None
           | Some ct \<Rightarrow>
               (case parts ct of
                  None \<Rightarrow> None
                | Some ps \<Rightarrow> find (\<lambda>part. inlineData part \<noteq> None) ps)))"

text \<open>\<open>imagePartFromResponse?.inlineData\<close>\<close>

definition imageBlob :: "GenerateContentResponse \<Rightarrow> Blob option" where
  "imageBlob response =
     (case imagePartFromResponse response of None \<Rightarrow> None | Some part \<Rightarrow> inlineData part)"

text \<open>\<open>response.promptFeedback?.blockReason\<close> and the message beside it.\<close>

definition promptBlockReason :: "GenerateContentResponse \<Rightarrow> string option" where
  "promptBlockReason response =
     (case promptFeedback response of None \<Rightarrow> None | Some pf \<Rightarrow> blockReason pf)"

definition promptBlockReasonMessage :: "GenerateContentResponse \<Rightarrow> string option" where
  "promptBlockReasonMessage response =
     (case promptFeedback response of None \<Rightarrow> None | Some pf \<Rightarrow> blockReasonMessage pf)"

text \<open>\<open>response.candidates?.[0]?.finishReason\<close>\<close>

definition candidateFinishReason :: "GenerateContentResponse \<Rightarrow> string option" where
  "candidateFinishReason response =
     (case firstCandidate response of None \<Rightarrow> None | Some c \<Rightarrow> finishReason c)"

text \<open>Truthiness of an optional string: present and not empty.\<close>

definition opt_truthy :: "string option \<Rightarrow> bool" where
  "opt_truthy v = (case v of None \<Rightarrow> False | Some s \<Rightarrow> str_truthy s)"

text \<open>\<open>v || ''\<close>\<close>

definition or_empty :: "string option \<Rightarrow> string" where
  "or_empty v = (if opt_truthy v then template v else [])"

text \<open>The last branch of \<open>handleApiResponse\<close>: no image, and nothing else to blame.\<close>

definition noImageError :: "GenerateContentResponse \<Rightarrow> string \<Rightarrow> js_error" where
  "noImageError response context =
     (let textFeedback = map_option trim (responseText response)
      in Error (''The AI model did not return an image for the '' @ context @ ''. ''
           @ (if opt_truthy textFeedback
              then ''The model responded with text: '' @ [CHR 0x22] @ template textFeedback
                     @ [CHR 0x22]
              else ''This can happen due to safety filters or if the request is too complex. Please try rephrasing your prompt to be more direct.'')))"

definition handleApiResponse :: "GenerateContentResponse \<Rightarrow> string \<Rightarrow> js_error + string" where
  "handleApiResponse response context =
     (if opt_truthy (promptBlockReason response) then
        Inl (Error (''Request was blocked. Reason: '' @ template (promptBlockReason response)
               @ ''. '' @ or_empty (promptBlockReasonMessage response)))
      else
        (case imageBlob response of
           Some blob \<Rightarrow>
             Inr (''data:'' @ template (mimeType blob) @ '';base64,''
                    @ template (blobData blob))
         | None \<Rightarrow>
             (let reason = candidateFinishReason response
              in if opt_truthy reason \<and> reason \<noteq> Some ''STOP'' then
                   Inl (Error (''Image generation for '' @ context
                          @ '' stopped unexpectedly. Reason: '' @ template reason
                          @ ''. This often relates to safety settings.''))
                 else Inl (noImageError response context))))"

section \<open>Face detection: the parsed answer\<close>

text \<open>
  Reading a property of a parsed value that is not \<open>null\<close>: the property of
  an object when it has one, and \<open>undefined\<close> (\<open>None\<close>) otherwise. None of the
  names read by the code (\<open>faces\<close>, \<open>x\<close>, \<open>y\<close>, \<open>width\<close>, \<open>height\<close>) is
  inherited by an array, a string, a number or a boolean. Reading a property
  of \<open>null\<close> throws a \<open>TypeError\<close>. The messages of the two engine errors
  below stand for the engine's own; \<open>detectFaces\<close> catches both and never
  shows them.
\<close>

definition TypeError :: js_error where
  "TypeError = Error ''Cannot read properties of null or undefined''"

definition SyntaxError :: js_error where
  "SyntaxError = Error ''Unexpected token in JSON''"

fun property :: "json \<Rightarrow> string \<Rightarrow> json option" where
  "property (JObject kvs) k = map_of kvs k"
| "property _ k = None"

definition get_prop :: "json \<Rightarrow> string \<Rightarrow> js_error + json option" where
  "get_prop v k = (case v of JNull \<Rightarrow> Inl TypeError | _ \<Rightarrow> Inr (property v k))"

text \<open>
  \<open>ToNumber\<close>, as the comparisons \<open>>=\<close> and \<open><=\<close> apply it to an operand:
  \<open>undefined\<close> is NaN, \<open>null\<close> is 0, a boolean is 0 or 1 and a number is
  itself. The conversion of a string, an array or an object is ECMAScript's
  and is taken as the parameter \<open>conv\<close>.
\<close>

fun to_number :: "(json \<Rightarrow> number) \<Rightarrow> json option \<Rightarrow> number" where
  "to_number conv None = NaN"
| "to_number conv (Some JNull) = Num 0"
| "to_number conv (Some (JBool b)) = Num (if b then 1 else 0)"
| "to_number conv (Some (JNumber n)) = n"
| "to_number conv (Some v) = conv v"

text \<open>\<open>v >= 0 && v <= 1\<close> for a property value \<open>v\<close>.\<close>

definition between_0_1 :: "(json \<Rightarrow> number) \<Rightarrow> json option \<Rightarrow> bool" where
  "between_0_1 conv v =
     (num_ge (to_number conv v) (Num 0) \<and> num_le (to_number conv v) (Num 1))"

text \<open>
  The callback of \<open>filter\<close>. Only its first property read can throw, and it
  throws exactly when the entry is \<open>null\<close>.
\<close>

definition face_in_range :: "(json \<Rightarrow> number) \<Rightarrow> json \<Rightarrow> js_error + bool" where
  "face_in_range conv face =
     (case get_prop face ''x'' of
        Inl e \<Rightarrow> Inl e
      | Inr vx \<Rightarrow>
          Inr (between_0_1 conv vx
            \<and> between_0_1 conv (property face ''y'')
            \<and> between_0_1 conv (property face ''width'')
            \<and> between_0_1 conv (property face ''height'')))"

text \<open>\<open>result.faces.filter(...)\<close> with a callback that may throw.\<close>

fun filter_faces :: "(json \<Rightarrow> number) \<Rightarrow> json list \<Rightarrow> js_error + json list" where
  "filter_faces conv [] = Inr []"
| "filter_faces conv (face # rest) =
     (case face_in_range conv face of
        Inl e \<Rightarrow> Inl e
      | Inr keep \<Rightarrow>
          (case filter_faces conv rest of
             Inl e \<Rightarrow> Inl e
           | Inr kept \<Rightarrow> Inr (if keep then face # kept else kept)))"

text \<open>
  The body of the \<open>try\<close> block of \<open>detectFaces\<close>. \<open>JSON.parse\<close> is the
  parameter \<open>parse\<close>; \<open>None\<close> is its \<open>SyntaxError\<close>. An absent
  \<open>response.text\<close> makes \<open>.trim()\<close> throw.
\<close>

definition detectFaces_try ::
  "(string \<Rightarrow> json option) \<Rightarrow> (json \<Rightarrow> number) \<Rightarrow> GenerateContentResponse
     \<Rightarrow> js_error + json list" where
  "detectFaces_try parse conv response =
     (case responseText response of
        None \<Rightarrow> Inl TypeError
      | Some t \<Rightarrow>
          (let jsonText = trim t in
           case parse jsonText of
             None \<Rightarrow> Inl SyntaxError
           | Some result \<Rightarrow>
               (case get_prop result ''faces'' of
                  Inl e \<Rightarrow> Inl e
                | Inr (Some (JArray fs)) \<Rightarrow> filter_faces conv fs
                | Inr _ \<Rightarrow> Inr [])))"

text \<open>The \<open>try\<close> block with its \<open>catch\<close>: whatever was thrown, one error.\<close>

definition detectFaces_result ::
  "(string \<Rightarrow> json option) \<Rightarrow> (json \<Rightarrow> number) \<Rightarrow> GenerateContentResponse
     \<Rightarrow> js_error + json list" where
  "detectFaces_result parse conv response =
     (case detectFaces_try parse conv response of
        Inl e \<Rightarrow> Inl (Error ''The AI model returned an invalid format for face detection.'')
      | Inr fs \<Rightarrow> Inr fs)"

text \<open>
  What the specification calls a bounding box: an object whose \<open>x\<close>, \<open>y\<close>,
  \<open>width\<close> and \<open>height\<close> are numbers; and what it calls a coordinate within
  \<open>[0.0, 1.0]\<close>.
\<close>

definition number_prop :: "json \<Rightarrow> string \<Rightarrow> number option" where
  "number_prop v k = (case property v k of Some (JNumber n) \<Rightarrow> Some n | _ \<Rightarrow> None)"

definition is_bounding_box :: "json \<Rightarrow> bool" where
  "is_bounding_box v =
     ((case v of JObject _ \<Rightarrow> True | _ \<Rightarrow> False)
        \<and> number_prop v ''x'' \<noteq> None \<and> number_prop v ''y'' \<noteq> None
        \<and> number_prop v ''width'' \<noteq> None \<and> number_prop v ''height'' \<noteq> None)"

definition within_unit :: "number option \<Rightarrow> bool" where
  "within_unit v = (case v of Some (Num r) \<Rightarrow> 0 \<le> r \<and> r \<le> 1 | _ \<Rightarrow> False)"

definition box_within_unit :: "json \<Rightarrow> bool" where
  "box_within_unit v =
     (within_unit (number_prop v ''x'') \<and> within_unit (number_prop v ''y'')
        \<and> within_unit (number_prop v ''width'') \<and> within_unit (number_prop v ''height''))"

definition BoundingBox :: "real \<Rightarrow> real \<Rightarrow> real \<Rightarrow> real \<Rightarrow> json" where
  "BoundingBox bx by bw bh =
     JObject [(''x'', JNumber (Num bx)), (''y'', JNumber (Num by)),
              (''width'', JNumber (Num bw)), (''height'', JNumber (Num bh))]"

text \<open>
  An entry that the comparisons of the filter read without coercion: it is not
  \<open>null\<close>, and each of its four coordinates is a number or is absent.
\<close>

definition coordinate_plain :: "json \<Rightarrow> string \<Rightarrow> bool" where
  "coordinate_plain v k =
     (case property v k of None \<Rightarrow> True | Some (JNumber n) \<Rightarrow> True | Some _ \<Rightarrow> False)"

definition plain_entry :: "json \<Rightarrow> bool" where
  "plain_entry v =
     (v \<noteq> JNull \<and> coordinate_plain v ''x'' \<and> coordinate_plain v ''y''
        \<and> coordinate_plain v ''width'' \<and> coordinate_plain v ''height'')"

text \<open>Whether a parsed answer has a \<open>faces\<close> property that is an array.\<close>

definition has_faces_array :: "json \<Rightarrow> bool" where
  "has_faces_array v = (case property v ''faces'' of Some (JArray fs) \<Rightarrow> True | _ \<Rightarrow> False)"

section \<open>Service calls\<close>

text \<open>
  What the browser and the service do is not code of the application; it is
  passed in as an environment. \<open>readAsDataURL\<close> is the \<open>FileReader\<close>,
  \<open>generateContent\<close> the call to the model (it may throw, for instance on a
  network failure), \<open>JSON_parse\<close> and \<open>ToNumber\<close> the built-ins used by
  \<open>detectFaces\<close>, \<open>atob\<close> the base64 decoder, \<open>canvasContext\<close> whether a
  canvas yields a 2d context, \<open>canvasToDataURL\<close> the data URL a canvas
  returns for a MIME type, and \<open>dateNow\<close> the value of \<open>Date.now()\<close>.
\<close>

record InlineData =
  partMimeType :: string
  partData :: string

text \<open>
  The instruction sent with the image. The fixed wording of each prompt is
  left out; what the application puts into it is kept.
\<close>

datatype instruction =
    EditPrompt string point
  | FilterPrompt string
  | AdjustmentPrompt string
  | EnhancePrompt
  | OcrPrompt
  | FaceDetectionPrompt
  | BackgroundRemovalPrompt

record request =
  reqModel :: string
  reqImage :: InlineData
  reqInstruction :: instruction

record env =
  readAsDataURL :: "File \<Rightarrow> js_error + string"
  generateContent :: "request \<Rightarrow> js_error + GenerateContentResponse"
  JSON_parse :: "string \<Rightarrow> json option"
  ToNumber :: "json \<Rightarrow> number"
  atob :: "string \<Rightarrow> js_error + string"
  canvasContext :: bool
  canvasToDataURL :: "string \<Rightarrow> string"
  dateNow :: nat

text \<open>
  The first lines of \<open>fileToPart\<close> and of \<open>dataURLtoFile\<close>: split the data
  URL at its commas, read the MIME type from the first piece, keep the second.
\<close>

definition splitDataURL :: "string \<Rightarrow> js_error + (string \<times> string)" where
  "splitDataURL dataurl =
     (case split_on (CHR '','') dataurl of
        a0 # a1 # _ \<Rightarrow>
          (case mimeMatch a0 of
             None \<Rightarrow> Inl (Error ''Could not parse MIME type from data URL'')
           | Some m \<Rightarrow>
               if str_truthy m then Inr (m, a1)
               else Inl (Error ''Could not parse MIME type from data URL''))
      | _ \<Rightarrow> Inl (Error ''Invalid data URL''))"

definition fileToPart :: "env \<Rightarrow> File \<Rightarrow> js_error + InlineData" where
  "fileToPart e f =
     (case readAsDataURL e f of
        Inl err \<Rightarrow> Inl err
      | Inr dataUrl \<Rightarrow>
          (case splitDataURL dataUrl of
             Inl err \<Rightarrow> Inl err
           | Inr (m, d) \<Rightarrow> Inr \<lparr>partMimeType = m, partData = d\<rparr>))"

text \<open>
  \<open>new File([bytes], name, {type})\<close>: the type is kept in lower case when
  all its characters are printable ASCII, and is empty otherwise.
\<close>

definition ascii_lower :: "char \<Rightarrow> char" where
  "ascii_lower c =
     (let n = (of_char c :: nat)
      in if 65 \<le> n \<and> n \<le> 90 then char_of (n + 32) else c)"

definition new_File :: "string \<Rightarrow> string \<Rightarrow> string \<Rightarrow> File" where
  "new_File bytes name t =
     \<lparr>fname = name,
      ftype = (if list_all (\<lambda>c. 32 \<le> (of_char c :: nat) \<and> (of_char c :: nat) \<le> 126) t
               then map ascii_lower t else []),
      fbytes = bytes\<rparr>"

text \<open>The loop \<open>while(n--) u8arr[n] = bstr.charCodeAt(n)\<close>.\<close>

fun fill_u8 :: "string \<Rightarrow> nat \<Rightarrow> string \<Rightarrow> string" where
  "fill_u8 bstr 0 u8arr = u8arr"
| "fill_u8 bstr (Suc n) u8arr = fill_u8 bstr n (u8arr[n := bstr ! n])"

definition dataURLtoFile :: "env \<Rightarrow> string \<Rightarrow> string \<Rightarrow> js_error + File" where
  "dataURLtoFile e dataurl filename =
     (case splitDataURL dataurl of
        Inl err \<Rightarrow> Inl err
      | Inr (mime, b64) \<Rightarrow>
          (case atob e b64 of
             Inl err \<Rightarrow> Inl err
           | Inr bstr \<Rightarrow>
               (let n = length bstr;
                    u8arr = fill_u8 bstr n (replicate n (CHR 0x00))
                in Inr (new_File u8arr filename mime))))"

text \<open>
  The part the seven service functions share: turn the file into a part, send
  it with the instruction. The first component of the result is the list of
  requests that went to the service.
\<close>

definition callModel ::
  "env \<Rightarrow> string \<Rightarrow> File \<Rightarrow> instruction
     \<Rightarrow> request list \<times> (js_error + GenerateContentResponse)" where
  "callModel e m imageFile instr =
     (case fileToPart e imageFile of
        Inl err \<Rightarrow> ([], Inl err)
      | Inr imagePart \<Rightarrow>
          (let req = \<lparr>reqModel = m, reqImage = imagePart, reqInstruction = instr\<rparr>
           in ([req], generateContent e req)))"

text \<open>The four image functions and background removal end in \<open>handleApiResponse\<close>.\<close>

definition imageCall ::
  "env \<Rightarrow> File \<Rightarrow> instruction \<Rightarrow> string \<Rightarrow> request list \<times> (js_error + string)" where
  "imageCall e imageFile instr context =
     (case callModel e ''gemini-2.5-flash-image-preview'' imageFile instr of
        (sent, Inl err) \<Rightarrow> (sent, Inl err)
      | (sent, Inr response) \<Rightarrow> (sent, handleApiResponse response context))"

definition generateEditedImage ::
  "env \<Rightarrow> File \<Rightarrow> string \<Rightarrow> point \<Rightarrow> request list \<times> (js_error + string)" where
  "generateEditedImage e imageFile userPrompt hotspot =
     imageCall e imageFile (EditPrompt userPrompt hotspot) ''edit''"

definition generateFilteredImage ::
  "env \<Rightarrow> File \<Rightarrow> string \<Rightarrow> request list \<times> (js_error + string)" where
  "generateFilteredImage e imageFile filterPrompt =
     imageCall e imageFile (FilterPrompt filterPrompt) ''filter''"

definition generateAdjustedImage ::
  "env \<Rightarrow> File \<Rightarrow> string \<Rightarrow> request list \<times> (js_error + string)" where
  "generateAdjustedImage e imageFile adjustmentPrompt =
     imageCall e imageFile (AdjustmentPrompt adjustmentPrompt) ''adjustment''"

definition generateEnhancedImage ::
  "env \<Rightarrow> File \<Rightarrow> request list \<times> (js_error + string)" where
  "generateEnhancedImage e imageFile =
     imageCall e imageFile EnhancePrompt ''enhancement''"

definition removeBackground ::
  "env \<Rightarrow> File \<Rightarrow> request list \<times> (js_error + string)" where
  "removeBackground e imageFile =
     imageCall e imageFile BackgroundRemovalPrompt ''background removal''"

definition extractTextFromImage ::
  "env \<Rightarrow> File \<Rightarrow> request list \<times> (js_error + string option)" where
  "extractTextFromImage e imageFile =
     (case callModel e ''gemini-2.5-flash'' imageFile OcrPrompt of
        (sent, Inl err) \<Rightarrow> (sent, Inl err)
      | (sent, Inr response) \<Rightarrow> (sent, Inr (responseText response)))"

definition detectFaces ::
  "env \<Rightarrow> File \<Rightarrow> request list \<times> (js_error + json list)" where
  "detectFaces e imageFile =
     (case callModel e ''gemini-2.5-flash'' imageFile FaceDetectionPrompt of
        (sent, Inl err) \<Rightarrow> (sent, Inl err)
      | (sent, Inr response) \<Rightarrow>
          (sent, detectFaces_result (JSON_parse e) (ToNumber e) response))"

text \<open>The request an image function and a text function build from a part.\<close>

definition imageRequest :: "InlineData \<Rightarrow> instruction \<Rightarrow> request" where
  "imageRequest part instr =
     \<lparr>reqModel = ''gemini-2.5-flash-image-preview'', reqImage = part, reqInstruction = instr\<rparr>"

definition textRequest :: "InlineData \<Rightarrow> instruction \<Rightarrow> request" where
  "textRequest part instr =
     \<lparr>reqModel = ''gemini-2.5-flash'', reqImage = part, reqInstruction = instr\<rparr>"

section \<open>Editing orchestrator\<close>

text \<open>
  A handler runs from the user's action to the end of its \<open>finally\<close> block.
  It returns the state it leaves and the requests it sent to the service.
  \<open>startLoading\<close> is the three setters before each \<open>try\<close>, \<open>failWith\<close> the
  body of each \<open>catch\<close>, and \<open>answerFile\<close> the two lines that turn the data
  URL of an answer into the file to append; every reading of \<open>Date.now()\<close>
  within one handler yields the same \<open>dateNow\<close>.
\<close>

definition startLoading :: "string \<Rightarrow> app \<Rightarrow> app" where
  "startLoading msg s = s\<lparr>isLoading := True, loadingMessage := msg, error := None\<rparr>"

definition failWith :: "string \<Rightarrow> js_error \<Rightarrow> app \<Rightarrow> app" where
  "failWith prefix err s = s\<lparr>error := Some (prefix @ errorMessage err)\<rparr>"

definition answerFile :: "env \<Rightarrow> string \<Rightarrow> js_error + string \<Rightarrow> js_error + File" where
  "answerFile e label r =
     (case r of
        Inl err \<Rightarrow> Inl err
      | Inr url \<Rightarrow> dataURLtoFile e url (label @ ''-'' @ show_nat (dateNow e) @ ''.png''))"

definition handleGenerate :: "env \<Rightarrow> app \<Rightarrow> app \<times> request list" where
  "handleGenerate e s =
     (case currentImage s of
        None \<Rightarrow> (s\<lparr>error := Some ''No image loaded to edit.''\<rparr>, [])
      | Some img \<Rightarrow>
          if \<not> str_truthy (trim (prompt s)) then
            (s\<lparr>error := Some ''Please enter a description for your edit.''\<rparr>, [])
          else
            (case editHotspot s of
               None \<Rightarrow>
                 (s\<lparr>error := Some ''Please click on the image to select an area to edit.''\<rparr>, [])
             | Some hotspot \<Rightarrow>
                 (let s1 = startLoading ''AI is thinking...'' s;
                      (sent, r) = generateEditedImage e img (prompt s) hotspot;
                      s2 = (case answerFile e ''edited'' r of
                              Inr newImageFile \<Rightarrow>
                                (addImageToHistory newImageFile s1)
                                  \<lparr>editHotspot := None, displayHotspot := None\<rparr>
                            | Inl err \<Rightarrow> failWith ''Failed to generate the image. '' err s1)
                  in (s2\<lparr>isLoading := False\<rparr>, sent))))"

definition handleApplyFilter :: "env \<Rightarrow> string \<Rightarrow> app \<Rightarrow> app \<times> request list" where
  "handleApplyFilter e filterPrompt s =
     (case currentImage s of
        None \<Rightarrow> (s\<lparr>error := Some ''No image loaded to apply a filter to.''\<rparr>, [])
      | Some img \<Rightarrow>
          (let s1 = startLoading ''AI is applying filter...'' s;
               (sent, r) = generateFilteredImage e img filterPrompt;
               s2 = (case answerFile e ''filtered'' r of
                       Inr newImageFile \<Rightarrow> addImageToHistory newImageFile s1
                     | Inl err \<Rightarrow> failWith ''Failed to apply the filter. '' err s1)
           in (s2\<lparr>isLoading := False\<rparr>, sent)))"

definition handleApplyAdjustment :: "env \<Rightarrow> string \<Rightarrow> app \<Rightarrow> app \<times> request list" where
  "handleApplyAdjustment e adjustmentPrompt s =
     (case currentImage s of
        None \<Rightarrow> (s\<lparr>error := Some ''No image loaded to apply an adjustment to.''\<rparr>, [])
      | Some img \<Rightarrow>
          (let s1 = startLoading ''AI is making adjustments...'' s;
               (sent, r) = generateAdjustedImage e img adjustmentPrompt;
               s2 = (case answerFile e ''adjusted'' r of
                       Inr newImageFile \<Rightarrow> addImageToHistory newImageFile s1
                     | Inl err \<Rightarrow> failWith ''Failed to apply the adjustment. '' err s1)
           in (s2\<lparr>isLoading := False\<rparr>, sent)))"

text \<open>
  \<open>getCroppedImg\<close> draws on a canvas; what the model keeps of it is that it
  rejects when there is no 2d context and otherwise resolves to the canvas's
  PNG data URL.
\<close>

definition getCroppedImg :: "env \<Rightarrow> image_element \<Rightarrow> PixelCrop \<Rightarrow> js_error + string" where
  "getCroppedImg e img c =
     (if \<not> canvasContext e then Inl (Error ''Failed to get canvas context'')
      else Inr (canvasToDataURL e ''image/png''))"

definition handleApplyCrop :: "env \<Rightarrow> app \<Rightarrow> app \<times> request list" where
  "handleApplyCrop e s =
     (case (completedCrop s, imgRef s) of
        (Some c, Some img) \<Rightarrow>
          if num_truthy (cropWidth c) \<and> num_truthy (cropHeight c) then
            (let s1 = startLoading ''Cropping image...'' s;
                 s2 = (case answerFile e ''cropped'' (getCroppedImg e img c) of
                         Inr newImageFile \<Rightarrow> addImageToHistory newImageFile s1
                       | Inl err \<Rightarrow> failWith ''Failed to crop the image. '' err s1)
             in (s2\<lparr>isLoading := False\<rparr>, []))
          else (s, [])
      | _ \<Rightarrow> (s, []))"

definition handleApplyResize :: "env \<Rightarrow> number \<Rightarrow> number \<Rightarrow> app \<Rightarrow> app \<times> request list" where
  "handleApplyResize e w h s =
     (case (imgRef s, currentImage s) of
        (Some img, Some cur) \<Rightarrow>
          (let s1 = startLoading ''Resizing image...'' s;
               resizedImageUrl =
                 (if \<not> canvasContext e then Inl (Error ''Could not get canvas context'')
                  else Inr (canvasToDataURL e
                              (if str_truthy (ftype cur) then ftype cur else ''image/png'')));
               s2 = (case answerFile e ''resized'' resizedImageUrl of
                       Inr newImageFile \<Rightarrow>
                         showToast (dateNow e) ''Resize successful''
                           (addImageToHistory newImageFile s1)
                     | Inl err \<Rightarrow> failWith ''Failed to resize the image. '' err s1)
           in (s2\<lparr>isLoading := False\<rparr>, []))
      | _ \<Rightarrow> (s\<lparr>error := Some ''Image reference not found for resizing.''\<rparr>, []))"

definition handleAutoEnhance :: "env \<Rightarrow> app \<Rightarrow> app \<times> request list" where
  "handleAutoEnhance e s =
     (case currentImage s of
        None \<Rightarrow> (s\<lparr>error := Some ''No image loaded to enhance.''\<rparr>, [])
      | Some img \<Rightarrow>
          (let s1 = startLoading ''AI is enhancing...'' s;
               (sent, r) = generateEnhancedImage e img;
               s2 = (case answerFile e ''enhanced'' r of
                       Inr newImageFile \<Rightarrow>
                         showToast (dateNow e) ''Auto-Enhance successful''
                           (addImageToHistory newImageFile s1)
                     | Inl err \<Rightarrow> failWith ''Failed to enhance the image. '' err s1)
           in (s2\<lparr>isLoading := False\<rparr>, sent)))"

definition handleExtractText :: "env \<Rightarrow> app \<Rightarrow> app \<times> request list" where
  "handleExtractText e s =
     (case currentImage s of
        None \<Rightarrow> (s\<lparr>error := Some ''No image loaded to extract text from.''\<rparr>, [])
      | Some img \<Rightarrow>
          (let s1 = (startLoading ''Extracting text...'' s)\<lparr>extractedText := Some []\<rparr>;
               (sent, r) = extractTextFromImage e img;
               s2 = (case r of
                       Inr txt \<Rightarrow>
                         (if \<not> opt_truthy txt
                          then showToast (dateNow e) ''No text found in the image.''
                                 (s1\<lparr>extractedText := txt\<rparr>)
                          else s1\<lparr>extractedText := txt\<rparr>)
                     | Inl err \<Rightarrow> failWith ''Failed to extract text. '' err s1)
           in (s2\<lparr>isLoading := False\<rparr>, sent)))"

definition handleDetectFaces :: "env \<Rightarrow> app \<Rightarrow> app \<times> request list" where
  "handleDetectFaces e s =
     (case currentImage s of
        None \<Rightarrow> (s\<lparr>error := Some ''No image loaded to detect faces in.''\<rparr>, [])
      | Some img \<Rightarrow>
          (let s1 = (startLoading ''Detecting faces...'' s)\<lparr>faces := []\<rparr>;
               (sent, r) = detectFaces e img;
               s2 = (case r of
                       Inr detectedFaces \<Rightarrow>
                         showToast (dateNow e)
                           (''Found '' @ show_nat (length detectedFaces) @ '' face(s).'')
                           (s1\<lparr>faces := detectedFaces\<rparr>)
                     | Inl err \<Rightarrow> failWith ''Failed to detect faces. '' err s1)
           in (s2\<lparr>isLoading := False\<rparr>, sent)))"

definition handleRemoveBackground :: "env \<Rightarrow> app \<Rightarrow> app \<times> request list" where
  "handleRemoveBackground e s =
     (case currentImage s of
        None \<Rightarrow> (s\<lparr>error := Some ''No image loaded to remove background from.''\<rparr>, [])
      | Some img \<Rightarrow>
          (let s1 = startLoading ''Removing background...'' s;
               (sent, r) = removeBackground e img;
               s2 = (case answerFile e ''bg-removed'' r of
                       Inr newImageFile \<Rightarrow>
                         showToast (dateNow e) ''Background removed successfully.''
                           (addImageToHistory newImageFile s1)
                     | Inl err \<Rightarrow> failWith ''Failed to remove background. '' err s1)
           in (s2\<lparr>isLoading := False\<rparr>, sent)))"

text \<open>The operations a user can start, and the handler of each.\<close>

datatype operation =
    Generate
  | ApplyFilter string
  | ApplyAdjustment string
  | ApplyCrop
  | ApplyResize number number
  | AutoEnhance
  | ExtractText
  | DetectFaces
  | RemoveBackground

fun perform :: "env \<Rightarrow> operation \<Rightarrow> app \<Rightarrow> app \<times> request list" where
  "perform e Generate s = handleGenerate e s"
| "perform e (ApplyFilter t) s = handleApplyFilter e t s"
| "perform e (ApplyAdjustment t) s = handleApplyAdjustment e t s"
| "perform e ApplyCrop s = handleApplyCrop e s"
| "perform e (ApplyResize w h) s = handleApplyResize e w h s"
| "perform e AutoEnhance s = handleAutoEnhance e s"
| "perform e ExtractText s = handleExtractText e s"
| "perform e DetectFaces s = handleDetectFaces e s"
| "perform e RemoveBackground s = handleRemoveBackground e s"

section \<open>When an operation fails\<close>

text \<open>
  Failure of an operation, said from its causes and not from what the handler
  does about it. \<open>rejection\<close> is the message of the precondition that does
  not hold when the operation is started, if there is one. A crop that is
  started without a completed selection or without an image element is not
  started at all, which is no failure.
\<close>

fun rejection :: "operation \<Rightarrow> app \<Rightarrow> string option" where
  "rejection Generate s =
     (if currentImage s = None then Some ''No image loaded to edit.''
      else if \<not> str_truthy (trim (prompt s))
        then Some ''Please enter a description for your edit.''
      else if editHotspot s = None
        then Some ''Please click on the image to select an area to edit.''
      else None)"
| "rejection (ApplyFilter t) s =
     (if currentImage s = None then Some ''No image loaded to apply a filter to.'' else None)"
| "rejection (ApplyAdjustment t) s =
     (if currentImage s = None then Some ''No image loaded to apply an adjustment to.''
      else None)"
| "rejection ApplyCrop s = None"
| "rejection (ApplyResize w h) s =
     (if imgRef s = None \<or> currentImage s = None
      then Some ''Image reference not found for resizing.'' else None)"
| "rejection AutoEnhance s =
     (if currentImage s = None then Some ''No image loaded to enhance.'' else None)"
| "rejection ExtractText s =
     (if currentImage s = None then Some ''No image loaded to extract text from.'' else None)"
| "rejection DetectFaces s =
     (if currentImage s = None then Some ''No image loaded to detect faces in.'' else None)"
| "rejection RemoveBackground s =
     (if currentImage s = None then Some ''No image loaded to remove background from.''
      else None)"

text \<open>
  \<open>thrown\<close> is the error, if any, raised by what the operation calls once it
  has started: the service function (reading the file, the call to the model,
  the validation of the answer), the canvas, or the decoding of the data URL
  into a file.
\<close>

definition raised :: "js_error + 'a \<Rightarrow> js_error option" where
  "raised r = (case r of Inl err \<Rightarrow> Some err | Inr v \<Rightarrow> None)"

text \<open>The canvas lines of the \<open>try\<close> block of \<open>handleApplyResize\<close>.\<close>

definition resizeCanvas :: "env \<Rightarrow> File \<Rightarrow> js_error + string" where
  "resizeCanvas e cur =
     (if \<not> canvasContext e then Inl (Error ''Could not get canvas context'')
      else Inr (canvasToDataURL e (if str_truthy (ftype cur) then ftype cur else ''image/png'')))"

fun thrown :: "env \<Rightarrow> operation \<Rightarrow> app \<Rightarrow> js_error option" where
  "thrown e Generate s =
     (case (currentImage s, editHotspot s) of
        (Some img, Some h) \<Rightarrow>
          raised (answerFile e ''edited'' (snd (generateEditedImage e img (prompt s) h)))
      | _ \<Rightarrow> None)"
| "thrown e (ApplyFilter t) s =
     (case currentImage s of
        Some img \<Rightarrow> raised (answerFile e ''filtered'' (snd (generateFilteredImage e img t)))
      | None \<Rightarrow> None)"
| "thrown e (ApplyAdjustment t) s =
     (case currentImage s of
        Some img \<Rightarrow> raised (answerFile e ''adjusted'' (snd (generateAdjustedImage e img t)))
      | None \<Rightarrow> None)"
| "thrown e ApplyCrop s =
     (case (completedCrop s, imgRef s) of
        (Some c, Some img) \<Rightarrow>
          if num_truthy (cropWidth c) \<and> num_truthy (cropHeight c)
          then raised (answerFile e ''cropped'' (getCroppedImg e img c)) else None
      | _ \<Rightarrow> None)"
| "thrown e (ApplyResize w h) s =
     (case (imgRef s, currentImage s) of
        (Some img, Some cur) \<Rightarrow> raised (answerFile e ''resized'' (resizeCanvas e cur))
      | _ \<Rightarrow> None)"
| "thrown e AutoEnhance s =
     (case currentImage s of
        Some img \<Rightarrow> raised (answerFile e ''enhanced'' (snd (generateEnhancedImage e img)))
      | None \<Rightarrow> None)"
| "thrown e ExtractText s =
     (case currentImage s of
        Some img \<Rightarrow> raised (snd (extractTextFromImage e img))
      | None \<Rightarrow> None)"
| "thrown e DetectFaces s =
     (case currentImage s of
        Some img \<Rightarrow> raised (snd (detectFaces e img))
      | None \<Rightarrow> None)"
| "thrown e RemoveBackground s =
     (case currentImage s of
        Some img \<Rightarrow> raised (answerFile e ''bg-removed'' (snd (removeBackground e img)))
      | None \<Rightarrow> None)"

text \<open>What each handler puts in front of the message of a caught error.\<close>

fun failurePrefix :: "operation \<Rightarrow> string" where
  "failurePrefix Generate = ''Failed to generate the image. ''"
| "failurePrefix (ApplyFilter t) = ''Failed to apply the filter. ''"
| "failurePrefix (ApplyAdjustment t) = ''Failed to apply the adjustment. ''"
| "failurePrefix ApplyCrop = ''Failed to crop the image. ''"
| "failurePrefix (ApplyResize w h) = ''Failed to resize the image. ''"
| "failurePrefix AutoEnhance = ''Failed to enhance the image. ''"
| "failurePrefix ExtractText = ''Failed to extract text. ''"
| "failurePrefix DetectFaces = ''Failed to detect faces. ''"
| "failurePrefix RemoveBackground = ''Failed to remove background. ''"

section \<open>Concrete inputs\<close>

text \<open>Three files, a loaded editor, and an environment in which every call succeeds.\<close>

definition fileA :: File where
  "fileA = \<lparr>fname = ''a.png'', ftype = ''image/png'', fbytes = ''AAAA''\<rparr>"

definition fileB :: File where
  "fileB = \<lparr>fname = ''b.png'', ftype = ''image/png'', fbytes = ''BBBB''\<rparr>"

definition fileC :: File where
  "fileC = \<lparr>fname = ''c.png'', ftype = ''image/png'', fbytes = ''CCCC''\<rparr>"

definition loaded_app :: app where
  "loaded_app = handleImageUpload fileA initial_app"

text \<open>The history \<open>[A, B, C]\<close> at position 1.\<close>

definition three_app :: app where
  "three_app = run_history 7 loaded_app [Append fileB, Append fileC, Undo]"

text \<open>The same history with an instruction typed and a focus point chosen.\<close>

definition retouch_app :: app where
  "retouch_app =
     three_app\<lparr>prompt := ''remove the hat'',
               editHotspot := Some \<lparr>px = Num 120, py = Num 80\<rparr>\<rparr>"

definition image_response :: GenerateContentResponse where
  "image_response =
     \<lparr>promptFeedback = None,
      candidates = Some [\<lparr>content = Some \<lparr>parts = Some
          [\<lparr>inlineData = None, partText = Some ''Here is your image.''\<rparr>,
           \<lparr>inlineData = Some \<lparr>mimeType = Some ''image/png'', blobData = Some ''QUJD''\<rparr>,
            partText = None\<rparr>]\<rparr>,
        finishReason = Some ''MAX_TOKENS''\<rparr>],
      responseText = Some ''Here is your image.''\<rparr>"

definition example_env :: env where
  "example_env =
     \<lparr>readAsDataURL = (\<lambda>f. Inr (''data:'' @ ftype f @ '';base64,'' @ fbytes f)),
      generateContent = (\<lambda>req. Inr image_response),
      JSON_parse = (\<lambda>t. None),
      ToNumber = (\<lambda>v. NaN),
      atob = (\<lambda>b. Inr b),
      canvasContext = True,
      canvasToDataURL = (\<lambda>t. ''data:'' @ t @ '';base64,QUJD''),
      dateNow = 7\<rparr>"

text \<open>
  A refusal with commentary and no image, and the image answer above with a
  block reason beside it.
\<close>

definition blocked_response :: GenerateContentResponse where
  "blocked_response =
     \<lparr>promptFeedback = Some \<lparr>blockReason = Some ''SAFETY'',
                              blockReasonMessage = Some ''Blocked by policy''\<rparr>,
      candidates = Some [\<lparr>content = Some \<lparr>parts = Some
          [\<lparr>inlineData = None, partText = Some ''I cannot do that.''\<rparr>]\<rparr>,
        finishReason = Some ''STOP''\<rparr>],
      responseText = Some ''I cannot do that.''\<rparr>"

definition blocked_image_response :: GenerateContentResponse where
  "blocked_image_response =
     image_response\<lparr>promptFeedback :=
       Some \<lparr>blockReason = Some ''SAFETY'', blockReasonMessage = None\<rparr>\<rparr>"

text \<open>
  Answers of the face detector, and environments whose service gives a fixed
  text as its answer. Their \<open>JSON.parse\<close> knows the face list of the
  specification's example, \<open>null\<close>, the empty object and the two texts
  defined before it.
\<close>

definition faces_text :: string where
  \<open>faces_text = ''{"faces":[{"x":0.1,"y":0.1,"width":0.2,"height":0.2},{"x":1.5,"y":0.1,"width":0.1,"height":0.1}]}''\<close>

definition faces_value :: json where
  "faces_value =
     JObject [(''faces'', JArray [BoundingBox 0.1 0.1 0.2 0.2, BoundingBox 1.5 0.1 0.1 0.1])]"

text \<open>
  Two face lists that are not lists of bounding boxes: one whose only entry has
  a boolean and a \<open>null\<close> among its coordinates, one whose only entry is
  \<open>null\<close>.
\<close>

definition coerced_text :: string where
  \<open>coerced_text = ''{"faces":[{"x":true,"y":null,"width":0,"height":1}]}''\<close>

definition coerced_face :: json where
  "coerced_face =
     JObject [(''x'', JBool True), (''y'', JNull),
              (''width'', JNumber (Num 0)), (''height'', JNumber (Num 1))]"

definition null_entry_text :: string where
  \<open>null_entry_text = ''{"faces":[null]}''\<close>

definition example_parse :: "string \<Rightarrow> json option" where
  "example_parse t =
     (if t = faces_text then Some faces_value
      else if t = ''null'' then Some JNull
      else if t = ''{}'' then Some (JObject [])
      else if t = coerced_text then Some (JObject [(''faces'', JArray [coerced_face])])
      else if t = null_entry_text then Some (JObject [(''faces'', JArray [JNull])])
      else None)"

definition text_response :: "string \<Rightarrow> GenerateContentResponse" where
  "text_response t = \<lparr>promptFeedback = None, candidates = None, responseText = Some t\<rparr>"

definition text_env :: "string \<Rightarrow> env" where
  "text_env t =
     example_env\<lparr>generateContent := (\<lambda>req. Inr (text_response t)),
                 JSON_parse := example_parse\<rparr>"

definition face_request :: request where
  "face_request =
     \<lparr>reqModel = ''gemini-2.5-flash'',
      reqImage = \<lparr>partMimeType = ''image/png'', partData = ''AAAA''\<rparr>,
      reqInstruction = FaceDetectionPrompt\<rparr>"

text \<open>The same environment with a service that cannot be reached.\<close>

definition offline_env :: env where
  "offline_env = example_env\<lparr>generateContent := (\<lambda>req. Inl (Error ''Failed to fetch''))\<rparr>"

section \<open>History manager: properties\<close>

lemma slice0_valid:
  "0 \<le> i \<Longrightarrow> i \<le> int (length xs) \<Longrightarrow> slice0 xs i = take (nat i) xs"
  by (simp add: slice0_def Let_def min_def)

lemma addImageToHistory_history:
  "history (addImageToHistory f s) = slice0 (history s) (historyIndex s + 1) @ [f]"
  by (simp add: addImageToHistory_def Let_def)

lemma addImageToHistory_index:
  "historyIndex (addImageToHistory f s)
     = int (length (slice0 (history s) (historyIndex s + 1)))"
  by (simp add: addImageToHistory_def Let_def)

lemma history_ok_step:
  assumes "history_ok s"
  shows "history_ok (history_step now s op)"
proof (cases op)
  case (Append f)
  then show ?thesis
    by (simp add: history_ok_def addImageToHistory_history addImageToHistory_index)
next
  case Undo
  with assms show ?thesis
    by (auto simp: history_ok_def handleUndo_def canUndo_def showToast_def)
next
  case Redo
  with assms show ?thesis
    by (auto simp: history_ok_def handleRedo_def canRedo_def showToast_def)
qed

lemma original_step:
  assumes "history_ok s"
  shows "originalImage (history_step now s op) = originalImage s"
proof (cases op)
  case (Append f)
  from assms have "slice0 (history s) (historyIndex s + 1)
      = take (nat (historyIndex s + 1)) (history s)"
    by (intro slice0_valid) (auto simp: history_ok_def)
  moreover from assms have "0 < nat (historyIndex s + 1)" "history s \<noteq> []"
    by (auto simp: history_ok_def)
  ultimately show ?thesis using Append
    by (cases "history s")
       (auto simp: originalImage_def index_def addImageToHistory_history nth_append
             split: if_splits)
next
  case Undo
  then show ?thesis
    by (simp add: originalImage_def handleUndo_def showToast_def)
next
  case Redo
  then show ?thesis
    by (simp add: originalImage_def handleRedo_def showToast_def)
qed

lemma run_history_ok:
  "history_ok s \<Longrightarrow>
     history_ok (run_history now s ops)
       \<and> originalImage (run_history now s ops) = originalImage s"
proof (induction ops arbitrary: s)
  case Nil
  then show ?case by (simp add: run_history_def)
next
  case (Cons op ops)
  from Cons.prems have ok: "history_ok (history_step now s op)"
    by (rule history_ok_step)
  from Cons.IH [OF ok] original_step [OF Cons.prems, of now op]
  show ?case by (simp add: run_history_def)
qed

lemma handleImageUpload_ok: "history_ok (handleImageUpload f s)"
  by (simp add: history_ok_def handleImageUpload_def)

text \<open>Before any upload there is nothing to undo or redo.\<close>

lemma initial_no_undo_redo:
  "handleUndo now initial_app = initial_app \<and> handleRedo now initial_app = initial_app"
  by (simp add: handleUndo_def handleRedo_def canUndo_def canRedo_def initial_app_def)

section \<open>History manager: the claims\<close>

text \<open>
  C1. Appending truncates the sequence to the entries up to the current
  position, inserts the new artifact after them and makes it the current
  one. In particular, from the history \<open>[A]\<close> at position 0, appending \<open>B\<close>,
  undoing and appending \<open>C\<close> leaves the history \<open>[A, C]\<close> at position 1:
  \<open>B\<close> is discarded.
\<close>

theorem append_discards_redo:
  assumes "history_ok t" and "history s = [A]" and "historyIndex s = 0"
  shows "history (addImageToHistory f t)
           = take (nat (historyIndex t) + 1) (history t) @ [f]
     \<and> historyIndex (addImageToHistory f t)
           = int (length (history (addImageToHistory f t))) - 1
     \<and> history (run_history now s [Append B, Undo, Append C]) = [A, C]
     \<and> historyIndex (run_history now s [Append B, Undo, Append C]) = 1"
proof -
  from assms(1) have "slice0 (history t) (historyIndex t + 1)
      = take (nat (historyIndex t + 1)) (history t)"
    by (intro slice0_valid) (auto simp: history_ok_def)
  moreover from assms(1) have "nat (historyIndex t + 1) = nat (historyIndex t) + 1"
    by (auto simp: history_ok_def)
  ultimately have general: "history (addImageToHistory f t)
        = take (nat (historyIndex t) + 1) (history t) @ [f]
      \<and> historyIndex (addImageToHistory f t)
        = int (length (history (addImageToHistory f t))) - 1"
    by (simp add: addImageToHistory_history addImageToHistory_index)
  let ?s1 = "addImageToHistory B s"
  have h1: "history ?s1 = [A, B]" and i1: "historyIndex ?s1 = 1"
    using assms(2,3) by (simp_all add: addImageToHistory_def slice0_def Let_def)
  let ?s2 = "handleUndo now ?s1"
  have h2: "history ?s2 = [A, B]" and i2: "historyIndex ?s2 = 0"
    using h1 i1 by (simp_all add: handleUndo_def canUndo_def showToast_def)
  let ?s3 = "addImageToHistory C ?s2"
  have "history ?s3 = [A, C]" and "historyIndex ?s3 = 1"
    using h2 i2
    by (simp_all add: addImageToHistory_history addImageToHistory_index slice0_def Let_def)
  then show ?thesis
    using general by (simp add: run_history_def)
qed

lemma three_app_history:
  "history three_app = [fileA, fileB, fileC]" "historyIndex three_app = 1"
  by (simp_all add: three_app_def run_history_def loaded_app_def handleImageUpload_def
        addImageToHistory_def slice0_def Let_def handleUndo_def canUndo_def showToast_def)

theorem append_discards_redo_witness:
  "history_ok three_app \<and> history loaded_app = [fileA] \<and> historyIndex loaded_app = 0
     \<and> history (addImageToHistory fileA three_app) = [fileA, fileB, fileA]
     \<and> historyIndex (addImageToHistory fileA three_app) = 2
     \<and> history (run_history 7 loaded_app [Append fileB, Undo, Append fileC]) = [fileA, fileC]
     \<and> historyIndex (run_history 7 loaded_app [Append fileB, Undo, Append fileC]) = 1"
proof -
  have ok: "history_ok three_app"
    by (simp add: history_ok_def three_app_history)
  have h: "history loaded_app = [fileA]" and i: "historyIndex loaded_app = 0"
    by (simp_all add: loaded_app_def handleImageUpload_def)
  from append_discards_redo [OF ok h i, of fileA 7 fileB fileC] ok h i show ?thesis
    by (simp add: three_app_history)
qed

text \<open>
  C2. After an upload has initialised the history, every finite run of
  append, undo and redo leaves the position within \<open>[0, length - 1]\<close> and the
  length at least 1, and the element at index 0 is still the uploaded file.
\<close>

theorem history_invariant:
  "history_ok (run_history now (handleImageUpload f s) ops)
     \<and> originalImage (run_history now (handleImageUpload f s) ops) = Some f"
proof -
  have "originalImage (handleImageUpload f s) = Some f"
    by (simp add: originalImage_def index_def handleImageUpload_def)
  with run_history_ok [OF handleImageUpload_ok, of now f s ops] show ?thesis
    by simp
qed

theorem history_invariant_witness:
  "history_ok three_app \<and> originalImage three_app = Some fileA"
  using history_invariant [of 7 fileA initial_app "[Append fileB, Append fileC, Undo]"]
  by (simp add: three_app_def loaded_app_def)

text \<open>
  C5. In a history whose position is a valid index, undo changes nothing at
  position 0 and otherwise lowers the position by exactly one; redo changes
  nothing at the last index and otherwise raises the position by exactly
  one; neither touches the sequence; \<open>canUndo\<close> holds exactly when the
  position is positive and \<open>canRedo\<close> exactly when it is below the last
  index.
\<close>

theorem undo_redo_position:
  assumes "history_ok s"
  shows "(if historyIndex s = 0 then handleUndo now s = s
          else historyIndex (handleUndo now s) = historyIndex s - 1
             \<and> history (handleUndo now s) = history s)
     \<and> (if historyIndex s = int (length (history s)) - 1 then handleRedo now s = s
        else historyIndex (handleRedo now s) = historyIndex s + 1
           \<and> history (handleRedo now s) = history s)
     \<and> canUndo s = (historyIndex s > 0)
     \<and> canRedo s = (historyIndex s < int (length (history s)) - 1)"
  using assms
  by (auto simp: history_ok_def handleUndo_def handleRedo_def canUndo_def canRedo_def
        showToast_def)

theorem undo_redo_position_witness:
  "history_ok three_app
     \<and> historyIndex (handleUndo 7 three_app) = 0
     \<and> history (handleUndo 7 three_app) = [fileA, fileB, fileC]
     \<and> historyIndex (handleRedo 7 three_app) = 2
     \<and> history (handleRedo 7 three_app) = [fileA, fileB, fileC]
     \<and> canUndo three_app \<and> canRedo three_app"
proof -
  have ok: "history_ok three_app"
    by (simp add: history_ok_def three_app_history)
  from undo_redo_position [OF ok, of 7] ok show ?thesis
    by (simp add: three_app_history)
qed

section \<open>Response validator: the claims\<close>

lemma imagePartFromResponse_first:
  assumes "candidates response = Some (c # cs)" and "content c = Some ct"
    and "parts ct = Some (pre @ part # post)"
    and "list_all (\<lambda>p. inlineData p = None) pre" and "inlineData part = Some blob"
  shows "imagePartFromResponse response = Some part"
proof -
  have "find (\<lambda>p. inlineData p \<noteq> None) (pre @ part # post) = Some part"
    using assms(4,5) by (induction pre) auto
  with assms(1-3) show ?thesis
    by (simp add: imagePartFromResponse_def firstCandidate_def index_def)
qed

text \<open>
  C3, as the code has it. When the prompt feedback carries no block reason
  (none, or the empty string) and the first candidate's content holds a part
  with inline data, the validator succeeds with the data URL of the first
  such part, made of its declared MIME type and its data, whatever the finish
  reason, the accompanying text and the other parts are.
\<close>

theorem image_part_succeeds:
  assumes "\<not> opt_truthy (promptBlockReason response)"
    and "candidates response = Some (c # cs)" and "content c = Some ct"
    and "parts ct = Some (pre @ part # post)"
    and "list_all (\<lambda>p. inlineData p = None) pre" and "inlineData part = Some blob"
  shows "handleApiResponse response context
           = Inr (''data:'' @ template (mimeType blob) @ '';base64,''
                    @ template (blobData blob))"
proof -
  from imagePartFromResponse_first [OF assms(2-6)]
  have "imageBlob response = Some blob"
    by (simp add: imageBlob_def assms(6))
  with assms(1) show ?thesis
    by (simp add: handleApiResponse_def)
qed

theorem image_part_succeeds_witness:
  "\<not> opt_truthy (promptBlockReason image_response)
     \<and> candidateFinishReason image_response = Some ''MAX_TOKENS''
     \<and> handleApiResponse image_response ''edit'' = Inr ''data:image/png;base64,QUJD''"
proof -
  let ?text = "\<lparr>inlineData = None, partText = Some ''Here is your image.''\<rparr>"
  let ?blob = "\<lparr>mimeType = Some ''image/png'', blobData = Some ''QUJD''\<rparr>"
  let ?img = "\<lparr>inlineData = Some ?blob, partText = None\<rparr>"
  let ?ct = "\<lparr>parts = Some ([?text] @ ?img # [])\<rparr>"
  let ?c = "\<lparr>content = Some ?ct, finishReason = Some ''MAX_TOKENS''\<rparr>"
  have nb: "\<not> opt_truthy (promptBlockReason image_response)"
    by (simp add: image_response_def promptBlockReason_def opt_truthy_def)
  have cs: "candidates image_response = Some (?c # [])"
    by (simp add: image_response_def)
  have "handleApiResponse image_response ''edit''
      = Inr (''data:'' @ template (mimeType ?blob) @ '';base64,'' @ template (blobData ?blob))"
    by (rule image_part_succeeds [OF nb cs, of ?ct "[?text]" ?img "[]" ?blob]) simp_all
  moreover have "candidateFinishReason image_response = Some ''MAX_TOKENS''"
    by (simp add: candidateFinishReason_def firstCandidate_def index_def image_response_def)
  ultimately show ?thesis using nb
    by (simp add: template_def)
qed

text \<open>
  C3 as stated fails: an answer that carries an image part and a block reason
  is rejected, because the block reason is looked at first.
\<close>

theorem image_with_block_reason_counterexample:
  "imageBlob blocked_image_response
       = Some \<lparr>mimeType = Some ''image/png'', blobData = Some ''QUJD''\<rparr>
     \<and> handleApiResponse blocked_image_response ''edit''
       = Inl (Error ''Request was blocked. Reason: SAFETY. '')"
  by (simp add: blocked_image_response_def image_response_def handleApiResponse_def
        promptBlockReason_def promptBlockReasonMessage_def opt_truthy_def str_truthy_def
        or_empty_def template_def imageBlob_def imagePartFromResponse_def
        firstCandidate_def index_def)

text \<open>
  C4. An answer whose prompt feedback carries a block reason is rejected
  with the blocked error, which quotes the reason and, when there is one, the
  message. Nothing else in the answer is looked at, so this holds with or
  without accompanying text, and in particular when there is no image part.
\<close>

theorem block_reason_fails:
  assumes "promptFeedback response = Some pf" and "blockReason pf = Some r" and "r \<noteq> []"
  shows "handleApiResponse response context
           = Inl (Error (''Request was blocked. Reason: '' @ r @ ''. ''
                    @ (case blockReasonMessage pf of None \<Rightarrow> [] | Some m \<Rightarrow> m)))"
  using assms
  by (simp add: handleApiResponse_def promptBlockReason_def promptBlockReasonMessage_def
        opt_truthy_def str_truthy_def or_empty_def template_def split: option.splits)

theorem block_reason_fails_witness:
  "imageBlob blocked_response = None
     \<and> responseText blocked_response = Some ''I cannot do that.''
     \<and> handleApiResponse blocked_response ''filter''
       = Inl (Error ''Request was blocked. Reason: SAFETY. Blocked by policy'')"
proof -
  let ?pf = "\<lparr>blockReason = Some ''SAFETY'', blockReasonMessage = Some ''Blocked by policy''\<rparr>"
  have pf: "promptFeedback blocked_response = Some ?pf"
    by (simp add: blocked_response_def)
  have "handleApiResponse blocked_response ''filter''
      = Inl (Error (''Request was blocked. Reason: '' @ ''SAFETY'' @ ''. ''
               @ (case blockReasonMessage ?pf of None \<Rightarrow> [] | Some m \<Rightarrow> m)))"
    by (rule block_reason_fails [OF pf]) simp_all
  moreover have "imageBlob blocked_response = None"
    by (simp add: imageBlob_def imagePartFromResponse_def firstCandidate_def index_def
          blocked_response_def)
  ultimately show ?thesis
    by (simp add: blocked_response_def)
qed

section \<open>Face detection: the claims\<close>

lemma between_0_1_number:
  "between_0_1 conv (Some (JNumber n)) = within_unit (Some n)"
  by (cases n) (simp_all add: between_0_1_def within_unit_def num_ge_def)

lemma between_0_1_plain:
  assumes "coordinate_plain v k"
  shows "between_0_1 conv (property v k) = within_unit (number_prop v k)"
proof (cases "property v k")
  case None
  then show ?thesis
    by (simp add: number_prop_def between_0_1_def within_unit_def)
next
  case (Some u)
  with assms obtain n where "u = JNumber n"
    by (cases u) (simp_all add: coordinate_plain_def)
  with Some show ?thesis
    by (simp add: number_prop_def between_0_1_number)
qed

lemma face_in_range_plain:
  assumes "plain_entry v"
  shows "face_in_range conv v = Inr (box_within_unit v)"
proof -
  from assms have "get_prop v ''x'' = Inr (property v ''x'')"
    by (cases v) (simp_all add: plain_entry_def get_prop_def)
  with assms show ?thesis
    by (simp add: face_in_range_def box_within_unit_def plain_entry_def between_0_1_plain)
qed

lemma filter_faces_plain:
  "list_all plain_entry fs \<Longrightarrow> filter_faces conv fs = Inr (filter box_within_unit fs)"
  by (induction fs) (simp_all add: face_in_range_plain)

lemma bounding_box_plain: "is_bounding_box v \<Longrightarrow> plain_entry v"
  by (cases v)
     (auto simp: is_bounding_box_def plain_entry_def coordinate_plain_def number_prop_def
        split: option.splits json.splits)

lemma fileA_part:
  "fileToPart (text_env t) fileA = Inr \<lparr>partMimeType = ''image/png'', partData = ''AAAA''\<rparr>"
  by (simp add: fileToPart_def text_env_def example_env_def fileA_def splitDataURL_def
        str_truthy_def is_line_terminator_def)

lemma text_env_call:
  "callModel (text_env t) ''gemini-2.5-flash'' fileA FaceDetectionPrompt
     = ([face_request], Inr (text_response t))"
  by (simp add: callModel_def fileA_part face_request_def) (simp add: text_env_def)

text \<open>
  C6, as the code has it. When the answer parses to an object whose \<open>faces\<close>
  is a list without a \<open>null\<close> entry, in whose entries each of \<open>x\<close>, \<open>y\<close>,
  \<open>width\<close> and \<open>height\<close> is a number or is absent (every list of bounding
  boxes is such a list), the detector returns exactly the entries whose four
  values are all numbers within \<open>[0.0, 1.0]\<close>, in their order; an entry with
  a value outside the range, or without one of the four, is left out.
\<close>

theorem faces_within_unit_kept:
  assumes "callModel e ''gemini-2.5-flash'' img FaceDetectionPrompt = (sent, Inr response)"
    and "responseText response = Some t"
    and "JSON_parse e (trim t) = Some result"
    and "property result ''faces'' = Some (JArray fs)"
    and "list_all plain_entry fs"
  shows "detectFaces e img = (sent, Inr (filter box_within_unit fs))"
proof -
  from assms(4) have "get_prop result ''faces'' = Inr (Some (JArray fs))"
    by (cases result) (simp_all add: get_prop_def)
  with assms(2,3) filter_faces_plain [OF assms(5)]
  have "detectFaces_try (JSON_parse e) (ToNumber e) response
      = Inr (filter box_within_unit fs)"
    by (simp add: detectFaces_try_def)
  with assms(1) show ?thesis
    by (simp add: detectFaces_def detectFaces_result_def)
qed

theorem faces_within_unit_kept_witness:
  "list_all is_bounding_box [BoundingBox 0.1 0.1 0.2 0.2, BoundingBox 1.5 0.1 0.1 0.1]
     \<and> detectFaces (text_env faces_text) fileA
       = ([face_request], Inr [BoundingBox 0.1 0.1 0.2 0.2])"
proof -
  let ?fs = "[BoundingBox 0.1 0.1 0.2 0.2, BoundingBox 1.5 0.1 0.1 0.1]"
  have rtext: "responseText (text_response faces_text) = Some faces_text"
    by (simp add: text_response_def)
  have "trim faces_text = faces_text"
    by (simp add: trim_def faces_text_def is_space_def)
  then have parse: "JSON_parse (text_env faces_text) (trim faces_text) = Some faces_value"
    by (simp add: text_env_def example_parse_def)
  have fcs: "property faces_value ''faces'' = Some (JArray ?fs)"
    by (simp add: faces_value_def)
  have boxes: "list_all is_bounding_box ?fs"
    by (simp add: is_bounding_box_def number_prop_def BoundingBox_def)
  then have plain: "list_all plain_entry ?fs"
    by (simp add: bounding_box_plain)
  have "filter box_within_unit ?fs = [BoundingBox 0.1 0.1 0.2 0.2]"
    by (simp add: box_within_unit_def number_prop_def within_unit_def BoundingBox_def)
  with faces_within_unit_kept [OF text_env_call rtext parse fcs plain] boxes show ?thesis
    by simp
qed

text \<open>
  C6 as stated fails on face lists that are not lists of bounding boxes. The
  comparisons coerce a boolean and \<open>null\<close> to numbers, so an entry whose
  \<open>x\<close> is \<open>true\<close> and whose \<open>y\<close> is \<open>null\<close> is kept although neither
  is a number within the range; and a \<open>null\<close> entry makes the whole operation
  raise the invalid-format error instead of being left out.
\<close>

theorem untyped_faces_counterexample:
  "\<not> box_within_unit coerced_face
     \<and> detectFaces (text_env coerced_text) fileA = ([face_request], Inr [coerced_face])
     \<and> detectFaces (text_env null_entry_text) fileA
       = ([face_request],
          Inl (Error ''The AI model returned an invalid format for face detection.''))"
proof -
  have "\<not> box_within_unit coerced_face"
    by (simp add: box_within_unit_def number_prop_def within_unit_def coerced_face_def)
  moreover have "trim coerced_text = coerced_text"
    by (simp add: trim_def coerced_text_def is_space_def)
  then have "detectFaces (text_env coerced_text) fileA = ([face_request], Inr [coerced_face])"
    by (simp add: detectFaces_def text_env_call detectFaces_result_def detectFaces_try_def
          text_response_def get_prop_def face_in_range_def between_0_1_def num_ge_def)
       (simp add: text_env_def example_parse_def faces_text_def coerced_text_def
          coerced_face_def get_prop_def face_in_range_def between_0_1_def num_ge_def)
  moreover have "trim null_entry_text = null_entry_text"
    by (simp add: trim_def null_entry_text_def is_space_def)
  then have "detectFaces (text_env null_entry_text) fileA
       = ([face_request],
          Inl (Error ''The AI model returned an invalid format for face detection.''))"
    by (simp add: detectFaces_def text_env_call detectFaces_result_def detectFaces_try_def
          text_response_def)
       (simp add: text_env_def example_parse_def faces_text_def coerced_text_def
          null_entry_text_def get_prop_def face_in_range_def)
  ultimately show ?thesis by simp
qed

text \<open>
  C7. When the text of the answer is not parsable as JSON, face detection
  raises the invalid-format error; it does not return an empty list.
\<close>

theorem unparsable_faces_raise:
  assumes "callModel e ''gemini-2.5-flash'' img FaceDetectionPrompt = (sent, Inr response)"
    and "responseText response = Some t"
    and "JSON_parse e (trim t) = None"
  shows "detectFaces e img
           = (sent, Inl (Error ''The AI model returned an invalid format for face detection.''))"
  using assms
  by (simp add: detectFaces_def detectFaces_result_def detectFaces_try_def)

theorem unparsable_faces_raise_witness:
  "detectFaces (text_env ''Two faces found'') fileA
     = ([face_request],
        Inl (Error ''The AI model returned an invalid format for face detection.''))"
proof -
  have rtext: "responseText (text_response ''Two faces found'') = Some ''Two faces found''"
    by (simp add: text_response_def)
  have "trim ''Two faces found'' = ''Two faces found''"
    by (simp add: trim_def is_space_def)
  then have parse: "JSON_parse (text_env ''Two faces found'') (trim ''Two faces found'') = None"
    by (simp add: text_env_def example_parse_def faces_text_def coerced_text_def
          null_entry_text_def)
  from unparsable_faces_raise [OF text_env_call rtext parse] show ?thesis .
qed

text \<open>
  C10, as the code has it. When the text of the answer parses to a value
  that has no \<open>faces\<close> array, face detection returns the empty list, unless
  the value is \<open>null\<close>: reading \<open>faces\<close> from \<open>null\<close> throws, and the
  operation raises the invalid-format error as it does for a parse failure.
\<close>

theorem no_faces_array_result:
  assumes "callModel e ''gemini-2.5-flash'' img FaceDetectionPrompt = (sent, Inr response)"
    and "responseText response = Some t"
    and "JSON_parse e (trim t) = Some result"
    and "\<not> has_faces_array result"
  shows "detectFaces e img
           = (sent, if result = JNull
                    then Inl (Error ''The AI model returned an invalid format for face detection.'')
                    else Inr [])"
proof (cases "result = JNull")
  case True
  with assms(1-3) show ?thesis
    by (simp add: detectFaces_def detectFaces_result_def detectFaces_try_def get_prop_def)
next
  case False
  then have "get_prop result ''faces'' = Inr (property result ''faces'')"
    by (cases result) (simp_all add: get_prop_def)
  moreover from assms(4) have "\<And>fs. property result ''faces'' \<noteq> Some (JArray fs)"
    by (auto simp: has_faces_array_def)
  ultimately have "detectFaces_try (JSON_parse e) (ToNumber e) response = Inr []"
    using assms(2,3)
    by (auto simp: detectFaces_try_def split: option.splits json.splits)
  with assms(1) False show ?thesis
    by (simp add: detectFaces_def detectFaces_result_def)
qed

theorem no_faces_array_result_witness:
  "JSON_parse (text_env '' {} '') (trim '' {} '') = Some (JObject [])
     \<and> detectFaces (text_env '' {} '') fileA = ([face_request], Inr [])"
proof -
  have rtext: "responseText (text_response '' {} '') = Some '' {} ''"
    by (simp add: text_response_def)
  have "trim '' {} '' = ''{}''"
    by (simp add: trim_def is_space_def)
  then have parse: "JSON_parse (text_env '' {} '') (trim '' {} '') = Some (JObject [])"
    by (simp add: text_env_def example_parse_def faces_text_def)
  have nf: "\<not> has_faces_array (JObject [])"
    by (simp add: has_faces_array_def)
  from no_faces_array_result [OF text_env_call rtext parse nf] parse show ?thesis
    by simp
qed

text \<open>
  C10 as stated fails: the text \<open>null\<close> is valid JSON, the value it parses to
  has no \<open>faces\<close> array, and face detection raises the invalid-format error.
\<close>

theorem null_answer_counterexample:
  "JSON_parse (text_env ''null'') (trim ''null'') = Some JNull
     \<and> \<not> has_faces_array JNull
     \<and> detectFaces (text_env ''null'') fileA
       = ([face_request],
          Inl (Error ''The AI model returned an invalid format for face detection.''))"
proof -
  have "trim ''null'' = ''null''"
    by (simp add: trim_def is_space_def)
  then have parse: "JSON_parse (text_env ''null'') (trim ''null'') = Some JNull"
    by (simp add: text_env_def example_parse_def faces_text_def)
  moreover have "\<not> has_faces_array JNull"
    by (simp add: has_faces_array_def)
  moreover have "detectFaces (text_env ''null'') fileA
       = ([face_request],
          Inl (Error ''The AI model returned an invalid format for face detection.''))"
    using parse
    by (simp add: detectFaces_def text_env_call detectFaces_result_def detectFaces_try_def
          text_response_def get_prop_def)
  ultimately show ?thesis by simp
qed

section \<open>Decoding an answer\<close>

text \<open>The copying loop of \<open>dataURLtoFile\<close> fills the array with the decoded bytes.\<close>

lemma fill_u8_take:
  "n \<le> length bstr \<Longrightarrow> length u8arr = length bstr \<Longrightarrow>
     fill_u8 bstr n u8arr = take n bstr @ drop n u8arr"
proof (induction n arbitrary: u8arr)
  case 0
  then show ?case by simp
next
  case (Suc n)
  then have "fill_u8 bstr (Suc n) u8arr = take n bstr @ drop n (u8arr[n := bstr ! n])"
    by simp
  also have "drop n (u8arr[n := bstr ! n]) = bstr ! n # drop (Suc n) u8arr"
    using Suc.prems by (simp add: upd_conv_take_nth_drop)
  also have "take n bstr @ bstr ! n # drop (Suc n) u8arr
      = take (Suc n) bstr @ drop (Suc n) u8arr"
    using Suc.prems by (simp add: take_Suc_conv_app_nth)
  finally show ?case .
qed

lemma fill_u8_copy:
  "fill_u8 bstr (length bstr) (replicate (length bstr) c) = bstr"
  by (simp add: fill_u8_take)

section \<open>Editing orchestrator: the claims\<close>

lemma imageCall_sent:
  "fileToPart e img = Inr part \<Longrightarrow> imageCall e img instr ctx = (sent, r) \<Longrightarrow>
     sent = [imageRequest part instr]"
  by (auto simp: imageCall_def callModel_def imageRequest_def Let_def split: sum.splits)

lemma textCall_sent:
  "fileToPart e img = Inr part \<Longrightarrow>
     fst (callModel e ''gemini-2.5-flash'' img instr) = [textRequest part instr]"
  by (simp add: callModel_def textRequest_def Let_def)

lemma handleGenerate_sent:
  assumes "currentImage s = Some img" and "fileToPart e img = Inr part"
  shows "snd (handleGenerate e s)
     = (if str_truthy (trim (prompt s))
        then (case editHotspot s of
                None \<Rightarrow> []
              | Some h \<Rightarrow> [imageRequest part (EditPrompt (prompt s) h)])
        else [])"
  using assms
  by (auto simp: handleGenerate_def generateEditedImage_def Let_def
        split: option.splits prod.splits dest: imageCall_sent)

lemma handleGenerate_rejects:
  "currentImage s = None \<or> \<not> str_truthy (trim (prompt s)) \<or> editHotspot s = None \<Longrightarrow>
     snd (handleGenerate e s) = [] \<and> error (fst (handleGenerate e s)) \<noteq> None
       \<and> history (fst (handleGenerate e s)) = history s
       \<and> historyIndex (fst (handleGenerate e s)) = historyIndex s"
  by (auto simp: handleGenerate_def split: option.splits)

lemma handleApplyFilter_sent:
  assumes "currentImage s = Some img" and "fileToPart e img = Inr part"
  shows "snd (handleApplyFilter e t s) = [imageRequest part (FilterPrompt t)]"
  using assms
  by (auto simp: handleApplyFilter_def generateFilteredImage_def Let_def
        split: option.splits prod.splits dest: imageCall_sent)

lemma handleApplyAdjustment_sent:
  assumes "currentImage s = Some img" and "fileToPart e img = Inr part"
  shows "snd (handleApplyAdjustment e t s) = [imageRequest part (AdjustmentPrompt t)]"
  using assms
  by (auto simp: handleApplyAdjustment_def generateAdjustedImage_def Let_def
        split: option.splits prod.splits dest: imageCall_sent)

lemma handleAutoEnhance_sent:
  assumes "currentImage s = Some img" and "fileToPart e img = Inr part"
  shows "snd (handleAutoEnhance e s) = [imageRequest part EnhancePrompt]"
  using assms
  by (auto simp: handleAutoEnhance_def generateEnhancedImage_def Let_def
        split: option.splits prod.splits dest: imageCall_sent)

lemma handleRemoveBackground_sent:
  assumes "currentImage s = Some img" and "fileToPart e img = Inr part"
  shows "snd (handleRemoveBackground e s) = [imageRequest part BackgroundRemovalPrompt]"
  using assms
  by (auto simp: handleRemoveBackground_def removeBackground_def Let_def
        split: option.splits prod.splits dest: imageCall_sent)

lemma handleExtractText_sent:
  assumes "currentImage s = Some img" and "fileToPart e img = Inr part"
  shows "snd (handleExtractText e s) = [textRequest part OcrPrompt]"
  using assms textCall_sent [OF assms(2), of OcrPrompt]
  by (auto simp: handleExtractText_def extractTextFromImage_def Let_def
        split: prod.splits sum.splits)

lemma handleDetectFaces_sent:
  assumes "currentImage s = Some img" and "fileToPart e img = Inr part"
  shows "snd (handleDetectFaces e s) = [textRequest part FaceDetectionPrompt]"
  using assms textCall_sent [OF assms(2), of FaceDetectionPrompt]
  by (auto simp: handleDetectFaces_def detectFaces_def Let_def
        split: prod.splits sum.splits)

lemma no_image_no_request:
  "currentImage s = None \<Longrightarrow> snd (perform e op s) = []"
  by (cases op)
     (simp_all add: handleGenerate_def handleApplyFilter_def handleApplyAdjustment_def
        handleApplyCrop_def handleApplyResize_def handleAutoEnhance_def
        handleExtractText_def handleDetectFaces_def handleRemoveBackground_def Let_def
        split: option.splits prod.splits)

lemma loaded_app_current: "currentImage loaded_app = Some fileA"
  by (simp add: currentImage_def index_def loaded_app_def handleImageUpload_def)

lemma initial_app_current: "currentImage initial_app = None"
  by (simp add: currentImage_def index_def initial_app_def)

lemma example_env_part:
  "fileToPart example_env fileA = Inr \<lparr>partMimeType = ''image/png'', partData = ''AAAA''\<rparr>"
  by (simp add: fileToPart_def example_env_def fileA_def splitDataURL_def
        str_truthy_def is_line_terminator_def)

text \<open>
  C8, as the code has it. With an image loaded and readable, the retouch
  handler sends nothing and reports a local error when the instruction is
  blank or no focus point is set, and otherwise sends the instruction with
  the focus point. The filter and adjustment handlers send whatever text they
  are given, the empty text included. Enhance, OCR, face detection and
  background removal send their request without looking at the instruction
  or the focus point. With no image loaded, no operation sends a request.
\<close>

theorem request_preconditions:
  assumes "currentImage s = Some img" and "fileToPart e img = Inr part"
    and "currentImage s0 = None"
  shows "(if str_truthy (trim (prompt s)) then
            (case editHotspot s of
               None \<Rightarrow>
                 handleGenerate e s =
                   (s\<lparr>error := Some ''Please click on the image to select an area to edit.''\<rparr>, [])
             | Some h \<Rightarrow>
                 snd (handleGenerate e s) = [imageRequest part (EditPrompt (prompt s) h)])
          else handleGenerate e s =
                 (s\<lparr>error := Some ''Please enter a description for your edit.''\<rparr>, []))
     \<and> snd (handleApplyFilter e t s) = [imageRequest part (FilterPrompt t)]
     \<and> snd (handleApplyAdjustment e t s) = [imageRequest part (AdjustmentPrompt t)]
     \<and> snd (handleAutoEnhance e s) = [imageRequest part EnhancePrompt]
     \<and> snd (handleExtractText e s) = [textRequest part OcrPrompt]
     \<and> snd (handleDetectFaces e s) = [textRequest part FaceDetectionPrompt]
     \<and> snd (handleRemoveBackground e s) = [imageRequest part BackgroundRemovalPrompt]
     \<and> snd (perform e op s0) = []"
proof -
  have gen: "if str_truthy (trim (prompt s)) then
            (case editHotspot s of
               None \<Rightarrow>
                 handleGenerate e s =
                   (s\<lparr>error := Some ''Please click on the image to select an area to edit.''\<rparr>, [])
             | Some h \<Rightarrow>
                 snd (handleGenerate e s) = [imageRequest part (EditPrompt (prompt s) h)])
          else handleGenerate e s =
                 (s\<lparr>error := Some ''Please enter a description for your edit.''\<rparr>, [])"
  proof (cases "str_truthy (trim (prompt s))")
    case True
    show ?thesis
    proof (cases "editHotspot s")
      case None
      with True assms(1) show ?thesis
        by (simp add: handleGenerate_def)
    next
      case (Some h)
      with True handleGenerate_sent [OF assms(1,2)] show ?thesis
        by simp
    qed
  next
    case False
    with assms(1) show ?thesis
      by (simp add: handleGenerate_def)
  qed
  from gen no_image_no_request [OF assms(3)]
    handleApplyFilter_sent [OF assms(1,2)] handleApplyAdjustment_sent [OF assms(1,2)]
    handleAutoEnhance_sent [OF assms(1,2)] handleExtractText_sent [OF assms(1,2)]
    handleDetectFaces_sent [OF assms(1,2)] handleRemoveBackground_sent [OF assms(1,2)]
  show ?thesis by simp
qed

theorem request_preconditions_witness:
  "currentImage loaded_app = Some fileA \<and> currentImage initial_app = None
     \<and> handleGenerate example_env loaded_app
          = (loaded_app\<lparr>error := Some ''Please enter a description for your edit.''\<rparr>, [])
     \<and> snd (handleAutoEnhance example_env loaded_app)
          = [imageRequest \<lparr>partMimeType = ''image/png'', partData = ''AAAA''\<rparr> EnhancePrompt]
     \<and> snd (perform example_env (ApplyFilter ''sepia'') initial_app) = []"
proof -
  have blank: "\<not> str_truthy (trim (prompt loaded_app))"
    by (simp add: loaded_app_def handleImageUpload_def initial_app_def trim_def str_truthy_def)
  from request_preconditions [OF loaded_app_current example_env_part initial_app_current,
      of "[]" "ApplyFilter ''sepia''"] blank loaded_app_current initial_app_current
  show ?thesis by simp
qed

text \<open>
  C8 as stated fails: the filter handler, given the empty text while an image
  is loaded, sends a request that carries the empty text.
\<close>

theorem empty_filter_text_counterexample:
  "\<not> str_truthy (trim [])
     \<and> snd (handleApplyFilter example_env [] loaded_app)
       = [\<lparr>reqModel = ''gemini-2.5-flash-image-preview'',
           reqImage = \<lparr>partMimeType = ''image/png'', partData = ''AAAA''\<rparr>,
           reqInstruction = FilterPrompt []\<rparr>]"
  by (simp add: trim_def str_truthy_def imageRequest_def
        handleApplyFilter_sent [OF loaded_app_current example_env_part])

lemma committed_no_error:
  "error (addImageToHistory f (startLoading msg s)) = None"
  "error (showToast k m (addImageToHistory f (startLoading msg s))) = None"
  by (simp_all add: addImageToHistory_def startLoading_def showToast_def Let_def)

lemma failWith_history:
  "history (failWith prefix err (startLoading msg s)) = history s"
  "historyIndex (failWith prefix err (startLoading msg s)) = historyIndex s"
  by (simp_all add: failWith_def startLoading_def)

lemma handleGenerate_failed:
  "error (fst (handleGenerate e s)) \<noteq> None \<Longrightarrow>
     history (fst (handleGenerate e s)) = history s
       \<and> historyIndex (fst (handleGenerate e s)) = historyIndex s"
  by (auto simp: handleGenerate_def Let_def committed_no_error failWith_history
        split: option.splits prod.splits sum.splits if_splits)

lemma handleApplyFilter_failed:
  "error (fst (handleApplyFilter e t s)) \<noteq> None \<Longrightarrow>
     history (fst (handleApplyFilter e t s)) = history s
       \<and> historyIndex (fst (handleApplyFilter e t s)) = historyIndex s"
  by (auto simp: handleApplyFilter_def Let_def committed_no_error failWith_history
        split: option.splits prod.splits sum.splits if_splits)

lemma handleApplyAdjustment_failed:
  "error (fst (handleApplyAdjustment e t s)) \<noteq> None \<Longrightarrow>
     history (fst (handleApplyAdjustment e t s)) = history s
       \<and> historyIndex (fst (handleApplyAdjustment e t s)) = historyIndex s"
  by (auto simp: handleApplyAdjustment_def Let_def committed_no_error failWith_history
        split: option.splits prod.splits sum.splits if_splits)

lemma handleApplyCrop_failed:
  "error (fst (handleApplyCrop e s)) \<noteq> None \<Longrightarrow>
     history (fst (handleApplyCrop e s)) = history s
       \<and> historyIndex (fst (handleApplyCrop e s)) = historyIndex s"
  by (auto simp: handleApplyCrop_def Let_def committed_no_error failWith_history
        split: option.splits prod.splits sum.splits if_splits)

lemma handleApplyResize_failed:
  "error (fst (handleApplyResize e w h s)) \<noteq> None \<Longrightarrow>
     history (fst (handleApplyResize e w h s)) = history s
       \<and> historyIndex (fst (handleApplyResize e w h s)) = historyIndex s"
  by (auto simp: handleApplyResize_def Let_def committed_no_error failWith_history
        split: option.splits prod.splits sum.splits if_splits)

lemma handleAutoEnhance_failed:
  "error (fst (handleAutoEnhance e s)) \<noteq> None \<Longrightarrow>
     history (fst (handleAutoEnhance e s)) = history s
       \<and> historyIndex (fst (handleAutoEnhance e s)) = historyIndex s"
  by (auto simp: handleAutoEnhance_def Let_def committed_no_error failWith_history
        split: option.splits prod.splits sum.splits if_splits)

lemma handleExtractText_history:
  "history (fst (handleExtractText e s)) = history s
     \<and> historyIndex (fst (handleExtractText e s)) = historyIndex s"
  by (auto simp: handleExtractText_def Let_def startLoading_def failWith_def showToast_def
        split: option.splits prod.splits sum.splits)

lemma handleDetectFaces_history:
  "history (fst (handleDetectFaces e s)) = history s
     \<and> historyIndex (fst (handleDetectFaces e s)) = historyIndex s"
  by (auto simp: handleDetectFaces_def Let_def startLoading_def failWith_def showToast_def
        split: option.splits prod.splits sum.splits)

lemma handleRemoveBackground_failed:
  "error (fst (handleRemoveBackground e s)) \<noteq> None \<Longrightarrow>
     history (fst (handleRemoveBackground e s)) = history s
       \<and> historyIndex (fst (handleRemoveBackground e s)) = historyIndex s"
  by (auto simp: handleRemoveBackground_def Let_def committed_no_error failWith_history
        split: option.splits prod.splits sum.splits if_splits)

lemma retouch_app_history:
  "history retouch_app = [fileA, fileB, fileC]" "historyIndex retouch_app = 1"
  "currentImage retouch_app = Some fileB"
  by (simp_all add: retouch_app_def currentImage_def index_def three_app_history)

lemma offline_imageCall:
  "imageCall offline_env fileB instr ctx
     = ([imageRequest \<lparr>partMimeType = ''image/png'', partData = ''BBBB''\<rparr> instr],
        Inl (Error ''Failed to fetch''))"
  by (simp add: imageCall_def callModel_def fileToPart_def
        offline_env_def example_env_def fileB_def splitDataURL_def str_truthy_def
        is_line_terminator_def imageRequest_def)

lemma handleRemoveBackground_error:
  assumes "currentImage s = Some img"
    and "answerFile e ''bg-removed'' (snd (removeBackground e img)) = Inl err"
  shows "fst (handleRemoveBackground e s)
     = s\<lparr>isLoading := False, loadingMessage := ''Removing background...'',
          error := Some (''Failed to remove background. '' @ errorMessage err)\<rparr>"
  using assms
  by (auto simp: handleRemoveBackground_def Let_def startLoading_def failWith_def
        split: prod.splits)

lemma handleGenerate_error:
  assumes "currentImage s = Some img" and "str_truthy (trim (prompt s))"
    and "editHotspot s = Some h"
    and "answerFile e ''edited'' (snd (generateEditedImage e img (prompt s) h)) = Inl err"
  shows "fst (handleGenerate e s)
     = s\<lparr>isLoading := False, loadingMessage := ''AI is thinking...'',
          error := Some (''Failed to generate the image. '' @ errorMessage err)\<rparr>"
  using assms
  by (auto simp: handleGenerate_def Let_def startLoading_def failWith_def
        split: prod.splits)

text \<open>A background removal whose answer decodes is committed to the history.\<close>

lemma handleRemoveBackground_commits:
  assumes "currentImage s = Some img" and "history_ok s"
    and "answerFile e ''bg-removed'' (snd (removeBackground e img)) = Inr f"
  shows "history (fst (handleRemoveBackground e s))
           = take (nat (historyIndex s) + 1) (history s) @ [f]
     \<and> historyIndex (fst (handleRemoveBackground e s)) = historyIndex s + 1
     \<and> error (fst (handleRemoveBackground e s)) = None"
  using assms
  by (auto simp: handleRemoveBackground_def Let_def startLoading_def showToast_def
        addImageToHistory_def slice0_def history_ok_def min_def nat_add_distrib
        split: prod.splits)

text \<open>An error shown at the end of an operation means the history was not touched.\<close>

lemma shown_error_keeps_history:
  assumes "error (fst (perform e op s)) \<noteq> None"
  shows "history (fst (perform e op s)) = history s
     \<and> historyIndex (fst (perform e op s)) = historyIndex s"
proof (cases op)
  case Generate
  with assms handleGenerate_failed [of e s] show ?thesis by simp
next
  case (ApplyFilter t)
  with assms handleApplyFilter_failed [of e t s] show ?thesis by simp
next
  case (ApplyAdjustment t)
  with assms handleApplyAdjustment_failed [of e t s] show ?thesis by simp
next
  case ApplyCrop
  with assms handleApplyCrop_failed [of e s] show ?thesis by simp
next
  case (ApplyResize w h)
  with assms handleApplyResize_failed [of e w h s] show ?thesis by simp
next
  case AutoEnhance
  with assms handleAutoEnhance_failed [of e s] show ?thesis by simp
next
  case ExtractText
  with handleExtractText_history [of e s] show ?thesis by simp
next
  case DetectFaces
  with handleDetectFaces_history [of e s] show ?thesis by simp
next
  case RemoveBackground
  with assms handleRemoveBackground_failed [of e s] show ?thesis by simp
qed

text \<open>
  Each handler, from the cause of the failure to what it leaves: a
  precondition that does not hold, or an error thrown after the start.
\<close>

lemma raised_Some: "raised r = Some err \<longleftrightarrow> r = Inl err"
  by (cases r) (simp_all add: raised_def)

lemma failure_Generate:
  "rejection Generate s \<noteq> None \<or> thrown e Generate s = Some err \<Longrightarrow>
     history (fst (perform e Generate s)) = history s
       \<and> historyIndex (fst (perform e Generate s)) = historyIndex s
       \<and> error (fst (perform e Generate s))
           = Some (case rejection Generate s of
                     Some m \<Rightarrow> m
                   | None \<Rightarrow> failurePrefix Generate @ errorMessage err)"
  by (auto simp: handleGenerate_def Let_def startLoading_def failWith_def raised_Some
        split: option.splits prod.splits sum.splits if_splits)

lemma failure_ApplyFilter:
  "rejection (ApplyFilter t) s \<noteq> None \<or> thrown e (ApplyFilter t) s = Some err \<Longrightarrow>
     history (fst (perform e (ApplyFilter t) s)) = history s
       \<and> historyIndex (fst (perform e (ApplyFilter t) s)) = historyIndex s
       \<and> error (fst (perform e (ApplyFilter t) s))
           = Some (case rejection (ApplyFilter t) s of
                     Some m \<Rightarrow> m
                   | None \<Rightarrow> failurePrefix (ApplyFilter t) @ errorMessage err)"
  by (auto simp: handleApplyFilter_def Let_def startLoading_def failWith_def raised_Some
        split: option.splits prod.splits sum.splits if_splits)

lemma failure_ApplyAdjustment:
  "rejection (ApplyAdjustment t) s \<noteq> None \<or> thrown e (ApplyAdjustment t) s = Some err \<Longrightarrow>
     history (fst (perform e (ApplyAdjustment t) s)) = history s
       \<and> historyIndex (fst (perform e (ApplyAdjustment t) s)) = historyIndex s
       \<and> error (fst (perform e (ApplyAdjustment t) s))
           = Some (case rejection (ApplyAdjustment t) s of
                     Some m \<Rightarrow> m
                   | None \<Rightarrow> failurePrefix (ApplyAdjustment t) @ errorMessage err)"
  by (auto simp: handleApplyAdjustment_def Let_def startLoading_def failWith_def raised_Some
        split: option.splits prod.splits sum.splits if_splits)

lemma failure_ApplyCrop:
  "rejection ApplyCrop s \<noteq> None \<or> thrown e ApplyCrop s = Some err \<Longrightarrow>
     history (fst (perform e ApplyCrop s)) = history s
       \<and> historyIndex (fst (perform e ApplyCrop s)) = historyIndex s
       \<and> error (fst (perform e ApplyCrop s))
           = Some (case rejection ApplyCrop s of
                     Some m \<Rightarrow> m
                   | None \<Rightarrow> failurePrefix ApplyCrop @ errorMessage err)"
  by (auto simp: handleApplyCrop_def Let_def startLoading_def failWith_def raised_Some
        split: option.splits prod.splits sum.splits if_splits)

lemma failure_ApplyResize:
  "rejection (ApplyResize w h) s \<noteq> None \<or> thrown e (ApplyResize w h) s = Some err \<Longrightarrow>
     history (fst (perform e (ApplyResize w h) s)) = history s
       \<and> historyIndex (fst (perform e (ApplyResize w h) s)) = historyIndex s
       \<and> error (fst (perform e (ApplyResize w h) s))
           = Some (case rejection (ApplyResize w h) s of
                     Some m \<Rightarrow> m
                   | None \<Rightarrow> failurePrefix (ApplyResize w h) @ errorMessage err)"
  by (auto simp: handleApplyResize_def resizeCanvas_def Let_def startLoading_def failWith_def raised_Some
        split: option.splits prod.splits sum.splits if_splits)

lemma failure_AutoEnhance:
  "rejection AutoEnhance s \<noteq> None \<or> thrown e AutoEnhance s = Some err \<Longrightarrow>
     history (fst (perform e AutoEnhance s)) = history s
       \<and> historyIndex (fst (perform e AutoEnhance s)) = historyIndex s
       \<and> error (fst (perform e AutoEnhance s))
           = Some (case rejection AutoEnhance s of
                     Some m \<Rightarrow> m
                   | None \<Rightarrow> failurePrefix AutoEnhance @ errorMessage err)"
  by (auto simp: handleAutoEnhance_def Let_def startLoading_def failWith_def raised_Some
        split: option.splits prod.splits sum.splits if_splits)

lemma failure_ExtractText:
  "rejection ExtractText s \<noteq> None \<or> thrown e ExtractText s = Some err \<Longrightarrow>
     history (fst (perform e ExtractText s)) = history s
       \<and> historyIndex (fst (perform e ExtractText s)) = historyIndex s
       \<and> error (fst (perform e ExtractText s))
           = Some (case rejection ExtractText s of
                     Some m \<Rightarrow> m
                   | None \<Rightarrow> failurePrefix ExtractText @ errorMessage err)"
  by (auto simp: handleExtractText_def Let_def startLoading_def failWith_def raised_Some
        split: option.splits prod.splits sum.splits if_splits)

lemma failure_DetectFaces:
  "rejection DetectFaces s \<noteq> None \<or> thrown e DetectFaces s = Some err \<Longrightarrow>
     history (fst (perform e DetectFaces s)) = history s
       \<and> historyIndex (fst (perform e DetectFaces s)) = historyIndex s
       \<and> error (fst (perform e DetectFaces s))
           = Some (case rejection DetectFaces s of
                     Some m \<Rightarrow> m
                   | None \<Rightarrow> failurePrefix DetectFaces @ errorMessage err)"
  by (auto simp: handleDetectFaces_def Let_def startLoading_def failWith_def raised_Some
        split: option.splits prod.splits sum.splits if_splits)

lemma failure_RemoveBackground:
  "rejection RemoveBackground s \<noteq> None \<or> thrown e RemoveBackground s = Some err \<Longrightarrow>
     history (fst (perform e RemoveBackground s)) = history s
       \<and> historyIndex (fst (perform e RemoveBackground s)) = historyIndex s
       \<and> error (fst (perform e RemoveBackground s))
           = Some (case rejection RemoveBackground s of
                     Some m \<Rightarrow> m
                   | None \<Rightarrow> failurePrefix RemoveBackground @ errorMessage err)"
  by (auto simp: handleRemoveBackground_def Let_def startLoading_def failWith_def raised_Some
        split: option.splits prod.splits sum.splits if_splits)

text \<open>
  C9. An operation fails when a precondition it checks does not hold, or
  when something it calls after it has started throws: the reading of the
  file, the call to the service, the validation of the answer, the canvas or
  the decoding of the answer into a file. Whatever the operation and the
  cause, the handler then leaves the history sequence and the position
  exactly as they were before the operation, and the error is not propagated
  but shown: the error field holds the message of the precondition, or the
  handler's prefix followed by the message of the thrown error.
\<close>

theorem failed_operation_keeps_history:
  assumes "rejection op s \<noteq> None \<or> thrown e op s = Some err"
  shows "history (fst (perform e op s)) = history s
     \<and> historyIndex (fst (perform e op s)) = historyIndex s
     \<and> error (fst (perform e op s))
         = Some (case rejection op s of
                   Some m \<Rightarrow> m
                 | None \<Rightarrow> failurePrefix op @ errorMessage err)"
proof (cases op)
  case Generate
  with assms failure_Generate [of s e err] show ?thesis by simp
next
  case (ApplyFilter t)
  with assms failure_ApplyFilter [of t s e err] show ?thesis by simp
next
  case (ApplyAdjustment t)
  with assms failure_ApplyAdjustment [of t s e err] show ?thesis by simp
next
  case ApplyCrop
  with assms failure_ApplyCrop [of s e err] show ?thesis by simp
next
  case (ApplyResize w h)
  with assms failure_ApplyResize [of w h s e err] show ?thesis by simp
next
  case AutoEnhance
  with assms failure_AutoEnhance [of s e err] show ?thesis by simp
next
  case ExtractText
  with assms failure_ExtractText [of s e err] show ?thesis by simp
next
  case DetectFaces
  with assms failure_DetectFaces [of s e err] show ?thesis by simp
next
  case RemoveBackground
  with assms failure_RemoveBackground [of s e err] show ?thesis by simp
qed

theorem failed_operation_keeps_history_witness:
  "thrown offline_env RemoveBackground retouch_app = Some (Error ''Failed to fetch'')
     \<and> history (fst (perform offline_env RemoveBackground retouch_app))
       = [fileA, fileB, fileC]
     \<and> historyIndex (fst (perform offline_env RemoveBackground retouch_app)) = 1
     \<and> error (fst (perform offline_env RemoveBackground retouch_app))
       = Some ''Failed to remove background. Failed to fetch''
     \<and> rejection Generate loaded_app = Some ''Please enter a description for your edit.''
     \<and> history (fst (perform example_env Generate loaded_app)) = [fileA]
     \<and> historyIndex (fst (perform example_env Generate loaded_app)) = 0
     \<and> error (fst (perform example_env Generate loaded_app))
       = Some ''Please enter a description for your edit.''"
proof -
  have started: "rejection RemoveBackground retouch_app = None"
    by (simp add: retouch_app_history)
  have thr: "thrown offline_env RemoveBackground retouch_app = Some (Error ''Failed to fetch'')"
    by (simp add: retouch_app_history answerFile_def removeBackground_def offline_imageCall
          raised_def)
  then have c1: "rejection RemoveBackground retouch_app \<noteq> None
      \<or> thrown offline_env RemoveBackground retouch_app = Some (Error ''Failed to fetch'')"
    by simp
  have rej: "rejection Generate loaded_app = Some ''Please enter a description for your edit.''"
    by (simp add: loaded_app_current)
       (simp add: loaded_app_def handleImageUpload_def initial_app_def trim_def str_truthy_def)
  then have c2: "rejection Generate loaded_app \<noteq> None
      \<or> thrown example_env Generate loaded_app = Some NonError"
    by simp
  have h0: "history loaded_app = [fileA]" "historyIndex loaded_app = 0"
    by (simp_all add: loaded_app_def handleImageUpload_def)
  from failed_operation_keeps_history [OF c1] failed_operation_keeps_history [OF c2]
    started thr rej h0
  show ?thesis
    by (simp add: retouch_app_history errorMessage_def)
qed

end
